theory Spec2Isabelle
  imports Complex_Main "HOL-Library.Word"
begin

unbundle bit_operations_syntax

section \<open>Hand landmarks (HandTrackingModule.py)\<close>

text \<open>
  \<^verbatim>\<open>findPosition\<close> appends one entry \<^verbatim>\<open>[id, cx, cy]\<close> per landmark of the detected
  hand: three Python integers. The list is empty when no hand is detected.
\<close>

type_synonym landmark = "int \<times> int \<times> int"

definition lm_x :: "landmark \<Rightarrow> int" where
  "lm_x l = fst (snd l)"

definition lm_y :: "landmark \<Rightarrow> int" where
  "lm_y l = snd (snd l)"

definition tipIds :: "nat list" where
  "tipIds = [4, 8, 12, 16, 20]"

text \<open>
  \<^verbatim>\<open>fingersUp\<close>: the signature is a list of five Python integers, 0 or 1. The thumb
  compares x of landmark \<^verbatim>\<open>tipIds[0]\<close> with x of the landmark before it; the loop over
  \<^verbatim>\<open>range(1, 5)\<close> compares y of each tip with y of the landmark two below it.
\<close>

definition fingersUp :: "landmark list \<Rightarrow> int list" where
  "fingersUp lmList =
     (let fingers = replicate 5 (0::int) in
      if length lmList < 21 then fingers
      else
        let fingers =
              (if lm_x (lmList ! (tipIds ! 0)) > lm_x (lmList ! (tipIds ! 0 - 1))
               then fingers[0 := 1] else fingers)
        in foldl (\<lambda>fs i.
                    if lm_y (lmList ! (tipIds ! i)) < lm_y (lmList ! (tipIds ! i - 2))
                    then fs[i := 1] else fs)
                 fingers [1 ..< 5])"

text \<open>Python truthiness of an integer, as in \<^verbatim>\<open>if fingers[1] and fingers[2]\<close>.\<close>

definition truthy :: "int \<Rightarrow> bool" where
  "truthy n = (n \<noteq> 0)"

text \<open>\<^verbatim>\<open>any(fingers[k:])\<close>.\<close>

definition any_from :: "nat \<Rightarrow> int list \<Rightarrow> bool" where
  "any_from k fingers = list_ex truthy (drop k fingers)"

subsection \<open>Distance between two landmarks\<close>

datatype py_error = IndexError

text \<open>
  Indexing a Python list with an integer: \<^verbatim>\<open>xs[i]\<close> for \<open>0 \<le> i < len\<close>, \<^verbatim>\<open>xs[len + i]\<close> for
  \<open>-len \<le> i < 0\<close>, and \<^verbatim>\<open>IndexError\<close> for every other index.
\<close>

definition py_get :: "'a list \<Rightarrow> int \<Rightarrow> py_error + 'a" where
  "py_get xs i =
     (if 0 \<le> i \<and> i < int (length xs) then Inr (xs ! nat i)
      else if i < 0 \<and> - int (length xs) \<le> i then Inr (xs ! nat (int (length xs) + i))
      else Inl IndexError)"

text \<open>\<^verbatim>\<open>math.hypot\<close> over the reals.\<close>

definition hypot :: "real \<Rightarrow> real \<Rightarrow> real" where
  "hypot a b = sqrt (a\<^sup>2 + b\<^sup>2)"

text \<open>
  \<^verbatim>\<open>findDistance(p1, p2, img, draw)\<close> returns \<^verbatim>\<open>(length, img, [x1, y1, x2, y2, cx, cy])\<close>.
  The image is handed back as it came (the drawing on it is display only), so the model
  returns the length and the coordinate list.
\<close>

definition findDistance :: "landmark list \<Rightarrow> int \<Rightarrow> int \<Rightarrow> py_error + (real \<times> int list)" where
  "findDistance lmList p1 p2 =
     (if int (length lmList) \<le> max p1 p2 then Inr (0, [0, 0, 0, 0, 0, 0])
      else
        case py_get lmList p1 of
          Inl e \<Rightarrow> Inl e
        | Inr l1 \<Rightarrow>
            (case py_get lmList p2 of
               Inl e \<Rightarrow> Inl e
             | Inr l2 \<Rightarrow>
                 (let x1 = lm_x l1; y1 = lm_y l1;
                      x2 = lm_x l2; y2 = lm_y l2;
                      cx = (x1 + x2) div 2; cy = (y1 + y2) div 2;
                      len = hypot (real_of_int (x2 - x1)) (real_of_int (y2 - y1))
                  in Inr (len, [x1, y1, x2, y2, cx, cy]))))"

section \<open>Constants and state of the frame loop (main.py, gui_main.py)\<close>

text \<open>
  The repository has two drivers with the same per-frame gesture logic: the script
  \<^verbatim>\<open>main.py\<close> and the PyQt window \<^verbatim>\<open>gui_main.py\<close>. They differ in the icon size, the
  icon positions and the bookkeeping of the hovered icon; the model takes the driver as a
  parameter and branches exactly where the two files differ.
\<close>

datatype driver = MainPy | GuiPy

definition CAM_WIDTH :: int where "CAM_WIDTH = 640"
definition CAM_HEIGHT :: int where "CAM_HEIGHT = 480"
definition SCROLL_AMOUNT :: int where "SCROLL_AMOUNT = 40"
definition MODE_SELECT_HOLD :: real where "MODE_SELECT_HOLD = 2"
definition SCREENSHOT_HOLD :: real where "SCREENSHOT_HOLD = 2"
definition HOVER_HOLD :: real where "HOVER_HOLD = 1"

fun ICON_SIZE :: "driver \<Rightarrow> int" where
  "ICON_SIZE MainPy = 100"
| "ICON_SIZE GuiPy = 80"

fun mode_icon_positions :: "driver \<Rightarrow> (int \<times> int) list" where
  "mode_icon_positions MainPy = [(40, 20), (180, 20), (320, 20), (460, 20)]"
| "mode_icon_positions GuiPy = [(40, 20), (140, 20), (240, 20), (340, 20)]"

fun painter_icon_positions :: "driver \<Rightarrow> (int \<times> int) list" where
  "painter_icon_positions MainPy =
     [(10, 20), (115, 20), (220, 20), (325, 20), (430, 20), (535, 20)]"
| "painter_icon_positions GuiPy =
     [(10, 20), (110, 20), (210, 20), (310, 20), (410, 20), (510, 20)]"

text \<open>The dictionary \<^verbatim>\<open>painter_options\<close>, in insertion order (the icon bitmaps left out).\<close>

definition painter_options :: "driver \<Rightarrow> (string \<times> int \<times> int) list" where
  "painter_options d =
     zip [''red'', ''green'', ''blue'', ''thick'', ''thin'', ''eraser''] (painter_icon_positions d)"

text \<open>The mode strings \<^verbatim>\<open>"mouse"\<close>, \<^verbatim>\<open>"volume"\<close>, \<^verbatim>\<open>"painter"\<close>, \<^verbatim>\<open>"scroll"\<close>.\<close>

datatype mode = Mouse | Volume | Painter | Scroll

definition mode_names :: "mode list" where
  "mode_names = [Mouse, Volume, Painter, Scroll]"

type_synonym color = "int \<times> int \<times> int"

text \<open>
  One call \<^verbatim>\<open>cv2.line(img_canvas, (xp, yp), (cx, cy), draw_color, brush_thickness)\<close>.
  Rasterising the segment is OpenCV's work; the canvas of the frame loop is represented
  by the calls made on it since it was last all white, oldest first.
\<close>

record stroke =
  pt1 :: "int \<times> int"
  pt2 :: "int \<times> int"
  stroke_color :: color
  thickness :: int

text \<open>
  The module-level variables of \<^verbatim>\<open>main.py\<close> (the attributes set by \<^verbatim>\<open>_init_state\<close> in
  \<^verbatim>\<open>gui_main.py\<close>). Timestamps are \<^verbatim>\<open>time.time()\<close> values, taken as reals; the value 0
  of a start time means that the timer is not running.
\<close>

record state =
  select_mode_start :: real
  screenshot_start :: real
  hover_start :: real
  hovered_icon :: int
  current_mode :: mode
  selecting_mode :: bool
  click_armed :: bool
  xp :: int
  yp :: int
  brush_thickness :: int
  draw_color :: color
  draw_color_name :: string
  last_color :: color
  img_canvas :: "stroke list"

definition init_state :: state where
  "init_state =
     \<lparr>select_mode_start = 0, screenshot_start = 0, hover_start = 0, hovered_icon = -1,
      current_mode = Mouse, selecting_mode = False, click_armed = False,
      xp = 0, yp = 0, brush_thickness = 10, draw_color = (0, 0, 255),
      draw_color_name = ''red'', last_color = (0, 0, 255), img_canvas = []\<rparr>"

text \<open>What the loop does to the outside world, in the order of the calls.\<close>

datatype button = LeftButton | RightButton

datatype action =
    Screenshot
  | MoveTo real real
  | Click button
  | SetMasterVolumeLevel real
  | ScrollBy int

text \<open>
  What one iteration reads: the landmark list of \<^verbatim>\<open>findPosition\<close>, the clock value
  \<^verbatim>\<open>cTime\<close> (\<^verbatim>\<open>now\<close> in the GUI) taken at the top of the iteration, and the later clock
  value that \<^verbatim>\<open>check_hover\<close> takes for itself.
\<close>

record frame_in =
  lmList :: "landmark list"
  cTime :: real
  hTime :: real

text \<open>
  What is fixed at start-up: the screen size of \<^verbatim>\<open>pyautogui.size()\<close>, whether the audio
  endpoint was obtained (\<^verbatim>\<open>volume is not None\<close>) and its range.
\<close>

record env =
  screen_width :: real
  screen_height :: real
  volume_present :: bool
  vol_min :: real
  vol_max :: real

text \<open>
  \<^verbatim>\<open>np.interp(x, (x0, x1), (f0, f1))\<close> for two sample points with \<open>x0 < x1\<close>, as numpy
  documents it: the first value up to \<open>x0\<close>, the last value from \<open>x1\<close> on, the straight
  line between.
\<close>

definition interp :: "real \<Rightarrow> real \<times> real \<Rightarrow> real \<times> real \<Rightarrow> real" where
  "interp x xs fs =
     (if x \<le> fst xs then fst fs
      else if snd xs \<le> x then snd fs
      else fst fs + (x - fst xs) * (snd fs - fst fs) / (snd xs - fst xs))"

section \<open>The stages of one iteration\<close>

definition screenshot_stage :: "int list \<Rightarrow> real \<Rightarrow> state \<Rightarrow> state \<times> action list" where
  "screenshot_stage fingers t s =
     (if fingers = [0, 0, 0, 0, 0] then
        (if screenshot_start s = 0 then (s\<lparr>screenshot_start := t\<rparr>, [])
         else if t - screenshot_start s \<ge> SCREENSHOT_HOLD
              then (s\<lparr>screenshot_start := 0\<rparr>, [Screenshot])
         else (s, []))
      else (s\<lparr>screenshot_start := 0\<rparr>, []))"

definition mode_select_stage :: "int list \<Rightarrow> real \<Rightarrow> state \<Rightarrow> state" where
  "mode_select_stage fingers t s =
     (if sum_list fingers = 5 then
        (if select_mode_start s = 0 then s\<lparr>select_mode_start := t\<rparr>
         else if t - select_mode_start s > MODE_SELECT_HOLD then s\<lparr>selecting_mode := True\<rparr>
         else s)
      else s\<lparr>select_mode_start := 0\<rparr>)"

text \<open>
  \<^verbatim>\<open>check_hover\<close> (\<^verbatim>\<open>_check_hover\<close> in the GUI): the loop over the enumerated icon
  positions returns at the first icon that holds the point; falling off the end clears
  the hovered icon. On a commit the GUI also clears the hovered icon, the script does not.
\<close>

definition in_icon :: "driver \<Rightarrow> int \<times> int \<Rightarrow> int \<times> int \<Rightarrow> bool" where
  "in_icon d pos p =
     (fst pos < fst p \<and> fst p < fst pos + ICON_SIZE d \<and>
      snd pos < snd p \<and> snd p < snd pos + ICON_SIZE d)"

fun check_hover_loop ::
  "driver \<Rightarrow> (nat \<times> int \<times> int) list \<Rightarrow> int \<times> int \<Rightarrow> real \<Rightarrow> state \<Rightarrow> state" where
  "check_hover_loop d [] p t s = s\<lparr>hovered_icon := -1\<rparr>"
| "check_hover_loop d ((i, pos) # rest) p t s =
     (if in_icon d pos p then
        (if hovered_icon s = int i then
           (if t - hover_start s > HOVER_HOLD then
              (case d of
                 MainPy \<Rightarrow> s\<lparr>current_mode := mode_names ! i, selecting_mode := False\<rparr>
               | GuiPy \<Rightarrow> s\<lparr>current_mode := mode_names ! i, selecting_mode := False,
                             hovered_icon := -1\<rparr>)
            else s)
         else s\<lparr>hovered_icon := int i, hover_start := t\<rparr>)
      else check_hover_loop d rest p t s)"

definition check_hover :: "driver \<Rightarrow> int \<times> int \<Rightarrow> real \<Rightarrow> state \<Rightarrow> state" where
  "check_hover d index_pos t s =
     check_hover_loop d (enumerate 0 (mode_icon_positions d)) index_pos t s"

definition mouse_dispatch ::
  "env \<Rightarrow> landmark list \<Rightarrow> int list \<Rightarrow> state \<Rightarrow> state \<times> action list" where
  "mouse_dispatch e lms fingers s =
     (let ix = lm_x (lms ! 8); iy = lm_y (lms ! 8);
          moves =
            (if truthy (fingers ! 1) \<and> \<not> any_from 2 fingers
             then [MoveTo (interp (real_of_int ix) (0, real_of_int CAM_WIDTH) (0, screen_width e))
                          (interp (real_of_int iy) (0, real_of_int CAM_HEIGHT) (0, screen_height e))]
             else [])
      in if truthy (fingers ! 1) \<and> truthy (fingers ! 2) then (s\<lparr>click_armed := True\<rparr>, moves)
         else if click_armed s then
           (if \<not> truthy (fingers ! 1) \<and> truthy (fingers ! 2)
              then (s\<lparr>click_armed := False\<rparr>, moves @ [Click LeftButton])
            else if \<not> truthy (fingers ! 1) \<and> \<not> truthy (fingers ! 2)
              then (s\<lparr>click_armed := False\<rparr>, moves @ [Click RightButton])
            else (s, moves))
         else (s, moves))"

text \<open>
  The volume branch runs under \<^verbatim>\<open>len(lmList) > 8\<close>, where \<^verbatim>\<open>findDistance(4, 8)\<close> cannot
  raise (lemma \<open>findDistance_4_8\<close> below); the error branch is written out all the same.
\<close>

definition volume_dispatch :: "env \<Rightarrow> landmark list \<Rightarrow> action list" where
  "volume_dispatch e lms =
     (case findDistance lms 4 8 of
        Inl err \<Rightarrow> []
      | Inr (len, info) \<Rightarrow> [SetMasterVolumeLevel (interp len (20, 200) (vol_min e, vol_max e))])"

definition select_tool :: "string \<Rightarrow> state \<Rightarrow> state" where
  "select_tool name s =
     (let s1 =
        (if name = ''thick'' then s\<lparr>brush_thickness := 20, draw_color_name := ''thick''\<rparr>
         else if name = ''thin'' then s\<lparr>brush_thickness := 5, draw_color_name := ''thin''\<rparr>
         else if name = ''eraser''
           then s\<lparr>draw_color := (255, 255, 255), draw_color_name := ''eraser''\<rparr>
         else
           (let c = (if name = ''red'' then (0, 0, 255)
                     else if name = ''green'' then (0, 255, 0) else (255, 0, 0))
            in s\<lparr>draw_color := c, draw_color_name := name, last_color := c\<rparr>))
      in if draw_color_name s1 \<noteq> ''eraser'' then s1\<lparr>draw_color := last_color s1\<rparr> else s1)"

definition select_tools :: "driver \<Rightarrow> int \<times> int \<Rightarrow> state \<Rightarrow> state" where
  "select_tools d p s =
     foldl (\<lambda>st (name, pos). if in_icon d pos p then select_tool name st else st)
           s (painter_options d)"

definition painter_dispatch :: "driver \<Rightarrow> landmark list \<Rightarrow> int list \<Rightarrow> state \<Rightarrow> state" where
  "painter_dispatch d lms fingers s =
     (if length lms > 8 then
        (let cx = lm_x (lms ! 8); cy = lm_y (lms ! 8);
             s1 = (if truthy (fingers ! 1) \<and> \<not> any_from 2 fingers
                   then select_tools d (cx, cy) s else s)
         in if truthy (fingers ! 1) \<and> truthy (fingers ! 2) then
              (let s2 = (if xp s1 = 0 \<and> yp s1 = 0 then s1\<lparr>xp := cx, yp := cy\<rparr> else s1);
                   s3 = s2\<lparr>img_canvas := img_canvas s2 @
                            [\<lparr>pt1 = (xp s2, yp s2), pt2 = (cx, cy),
                              stroke_color = draw_color s2, thickness = brush_thickness s2\<rparr>]\<rparr>
               in s3\<lparr>xp := cx, yp := cy\<rparr>)
            else s1\<lparr>xp := 0, yp := 0\<rparr>)
      else s)"

definition scroll_dispatch :: "int list \<Rightarrow> action list" where
  "scroll_dispatch fingers =
     (if truthy (fingers ! 1) \<and> truthy (fingers ! 2) \<and> \<not> truthy (fingers ! 3)
        then [ScrollBy SCROLL_AMOUNT]
      else if truthy (fingers ! 1) \<and> truthy (fingers ! 2) \<and> truthy (fingers ! 3)
        then [ScrollBy (- SCROLL_AMOUNT)]
      else [])"

text \<open>The body of \<^verbatim>\<open>if lmList:\<close>, in the order of the source.\<close>

definition gestures ::
  "driver \<Rightarrow> env \<Rightarrow> frame_in \<Rightarrow> int list \<Rightarrow> state \<Rightarrow> state \<times> action list" where
  "gestures d e f fingers s =
     (let (s1, a1) = screenshot_stage fingers (cTime f) s;
          s2 = mode_select_stage fingers (cTime f) s1;
          lms = lmList f
      in if selecting_mode s2 then
           (if length lms > 8
              then check_hover d (lm_x (lms ! 8), lm_y (lms ! 8)) (hTime f) s2 else s2, a1)
         else if current_mode s2 = Mouse \<and> length lms > 12 then
           (let (s3, a3) = mouse_dispatch e lms fingers s2 in (s3, a1 @ a3))
         else if current_mode s2 = Volume \<and> length lms > 8 \<and> volume_present e then
           (s2, a1 @ volume_dispatch e lms)
         else if current_mode s2 = Painter then (painter_dispatch d lms fingers s2, a1)
         else if current_mode s2 = Scroll then (s2, a1 @ scroll_dispatch fingers)
         else (s2, a1))"

text \<open>
  One iteration of \<^verbatim>\<open>while True\<close> in \<^verbatim>\<open>main.py\<close>, one call of \<^verbatim>\<open>update_frame\<close> in
  \<^verbatim>\<open>gui_main.py\<close>. The GUI clears the hovered icon at the end of every iteration that
  leaves \<^verbatim>\<open>selecting_mode\<close> false.
\<close>

definition frame_fingers :: "frame_in \<Rightarrow> int list" where
  "frame_fingers f = (if lmList f \<noteq> [] then fingersUp (lmList f) else [0, 0, 0, 0, 0])"

definition frame_step :: "driver \<Rightarrow> env \<Rightarrow> frame_in \<Rightarrow> state \<Rightarrow> state \<times> action list" where
  "frame_step d e f s =
     (let fingers = frame_fingers f;
          (s1, acts) = (if lmList f \<noteq> [] then gestures d e f fingers s else (s, []))
      in (case d of
            MainPy \<Rightarrow> s1
          | GuiPy \<Rightarrow> (if \<not> selecting_mode s1 then s1\<lparr>hovered_icon := -1\<rparr> else s1),
          acts))"

text \<open>A run of iterations: the final state and the actions of each iteration.\<close>

fun run :: "driver \<Rightarrow> env \<Rightarrow> frame_in list \<Rightarrow> state \<Rightarrow> state \<times> action list list" where
  "run d e [] s = (s, [])"
| "run d e (f # fs) s =
     (let (s1, a) = frame_step d e f s; (s2, as) = run d e fs s1 in (s2, a # as))"

section \<open>Compositing the canvas over the frame\<close>

text \<open>
  Images are rows of BGR pixels with 8-bit channels. The OpenCV calls of
  \<^verbatim>\<open>overlay_canvas\<close> (\<^verbatim>\<open>overlay_canvas_on_frame\<close> in the GUI) are written out per pixel
  as OpenCV documents them: \<^verbatim>\<open>COLOR_BGR2GRAY\<close> weighs R, G, B by 0.299, 0.587, 0.114 (in
  15-bit fixed point, rounded), \<^verbatim>\<open>THRESH_BINARY_INV\<close> gives 0 above the threshold and the
  maximum value otherwise, \<^verbatim>\<open>COLOR_GRAY2BGR\<close> copies the grey value into the three channels,
  and \<^verbatim>\<open>cv2.add\<close> saturates at 255. \<^verbatim>\<open>cv2.cvtColor\<close> raises \<^verbatim>\<open>cv2.error\<close> on an
  array without pixels (height or width 0). A binary operation on two arrays of different
  shapes raises \<^verbatim>\<open>cv2.error\<close>, unless it is a bitwise operation and one operand has the
  shape of a scalar, which is then applied to every pixel of the other operand.
\<close>

type_synonym pixel = "8 word \<times> 8 word \<times> 8 word"
type_synonym image = "pixel list list"

datatype cv_error = Cv2Error

definition gray_of :: "pixel \<Rightarrow> 8 word" where
  "gray_of px =
     (case px of (b, g, r) \<Rightarrow>
        word_of_nat ((unat b * 3735 + unat g * 19235 + unat r * 9798 + 16384) div 32768))"

definition thresh_binary_inv :: "8 word \<Rightarrow> 8 word \<Rightarrow> 8 word \<Rightarrow> 8 word" where
  "thresh_binary_inv thresh maxval v = (if v > thresh then 0 else maxval)"

definition gray2bgr :: "8 word \<Rightarrow> pixel" where
  "gray2bgr v = (v, v, v)"

definition px_map :: "(8 word \<Rightarrow> 8 word) \<Rightarrow> pixel \<Rightarrow> pixel" where
  "px_map f px = (case px of (b, g, r) \<Rightarrow> (f b, f g, f r))"

definition px_map2 :: "(8 word \<Rightarrow> 8 word \<Rightarrow> 8 word) \<Rightarrow> pixel \<Rightarrow> pixel \<Rightarrow> pixel" where
  "px_map2 f p q = (case p of (b, g, r) \<Rightarrow> case q of (b', g', r') \<Rightarrow> (f b b', f g g', f r r'))"

definition saturate_add :: "8 word \<Rightarrow> 8 word \<Rightarrow> 8 word" where
  "saturate_add a b = word_of_nat (min 255 (unat a + unat b))"

definition shape :: "'a list list \<Rightarrow> nat list" where
  "shape img = map length img"

text \<open>An array of shape (h, w, 3) with h = 0 or w = 0.\<close>

definition img_empty :: "'a list list \<Rightarrow> bool" where
  "img_empty img = (concat img = [])"

definition img_map2 ::
  "(pixel \<Rightarrow> pixel \<Rightarrow> pixel) \<Rightarrow> image \<Rightarrow> image \<Rightarrow> cv_error + image" where
  "img_map2 f a b =
     (if shape a = shape b then Inr (map2 (map2 f) a b) else Inl Cv2Error)"

text \<open>
  \<^verbatim>\<open>cv2.bitwise_and\<close> on two arrays of different shapes: OpenCV takes an operand of
  1 x 1 pixels, or of 3 pixels in one row or one column (as many as there are channels),
  for a scalar, the first operand before the second, and the result has the shape of the
  other operand. The scalar of a single pixel is its first channel, repeated over the
  channels; the scalar of three pixels is the first three stored values, the channels of
  the first pixel. Every other pair of different shapes raises.
\<close>

definition scalar_shaped :: "image \<Rightarrow> bool" where
  "scalar_shaped a = (shape a = [1] \<or> shape a = [3] \<or> shape a = [1, 1, 1])"

definition as_scalar :: "image \<Rightarrow> pixel" where
  "as_scalar a =
     (case concat a of
        [] \<Rightarrow> (0, 0, 0)
      | [(b, g, r)] \<Rightarrow> (b, b, b)
      | (b, g, r) # rest \<Rightarrow> (b, g, r))"

definition bitwise_and :: "image \<Rightarrow> image \<Rightarrow> cv_error + image" where
  "bitwise_and a b =
     (if shape a = shape b then img_map2 (px_map2 (\<lambda>x y. x AND y)) a b
      else if scalar_shaped a
        then Inr (map (map (\<lambda>p. px_map2 (\<lambda>x y. x AND y) p (as_scalar a))) b)
      else if scalar_shaped b
        then Inr (map (map (\<lambda>p. px_map2 (\<lambda>x y. x AND y) p (as_scalar b))) a)
      else Inl Cv2Error)"

text \<open>
  \<^verbatim>\<open>cv2.add\<close> on two 8-bit arrays of different shapes raises in every case: an array
  operand is accepted as a scalar only when it holds doubles.
\<close>

definition cv_add :: "image \<Rightarrow> image \<Rightarrow> cv_error + image" where
  "cv_add a b = img_map2 (px_map2 saturate_add) a b"

definition overlay_canvas :: "image \<Rightarrow> image \<Rightarrow> cv_error + image" where
  "overlay_canvas img canvas =
     (if img_empty canvas then Inl Cv2Error
      else
        let mask = map (map gray_of) canvas;
            mask_inv = map (map (thresh_binary_inv 250 255)) mask;
            mask_inv = map (map gray2bgr) mask_inv
        in case bitwise_and img (map (map (px_map (\<lambda>v. 255 - v))) mask_inv) of
             Inl e \<Rightarrow> Inl e
           | Inr img1 \<Rightarrow>
               (case bitwise_and canvas mask_inv of
                  Inl e \<Rightarrow> Inl e
                | Inr fg \<Rightarrow> cv_add img1 fg))"

text \<open>The canvas as \<^verbatim>\<open>np.ones((h, w, 3), np.uint8) * 255\<close> makes it.\<close>

definition white_canvas :: "nat \<Rightarrow> nat \<Rightarrow> image" where
  "white_canvas h w = replicate h (replicate w (255, 255, 255))"

section \<open>Sample hands\<close>

text \<open>
  A hand of 21 landmarks with the index fingertip at a chosen point and each finger up
  or down as the flags say, for running the loop on concrete frames.
\<close>

definition pose :: "bool \<Rightarrow> bool \<Rightarrow> bool \<Rightarrow> bool \<Rightarrow> bool \<Rightarrow> int \<times> int \<Rightarrow> landmark list" where
  "pose t i m r p tip =
     [(0, 300, 400), (1, 280, 380), (2, 260, 360), (3, 250, 340),
      (4, if t then 255 else 245, 330),
      (5, fst tip, snd tip + 60),
      (6, fst tip, if i then snd tip + 40 else snd tip - 40),
      (7, fst tip, snd tip + 20),
      (8, fst tip, snd tip),
      (9, 320, 300), (10, 320, 260), (11, 320, 240), (12, 320, if m then 220 else 280),
      (13, 340, 300), (14, 340, 260), (15, 340, 240), (16, 340, if r then 220 else 280),
      (17, 360, 300), (18, 360, 270), (19, 360, 250), (20, 360, if p then 230 else 290)]"

definition fist_hand :: "landmark list" where
  "fist_hand = pose False False False False False (300, 300)"

definition frame_at :: "landmark list \<Rightarrow> real \<Rightarrow> frame_in" where
  "frame_at lms t = \<lparr>lmList = lms, cTime = t, hTime = t\<rparr>"

definition sample_env :: env where
  "sample_env =
     \<lparr>screen_width = 1920, screen_height = 1080, volume_present = True,
      vol_min = -65, vol_max = 0\<rparr>"

definition sample_frame :: image where
  "sample_frame = [[(1, 2, 3), (4, 5, 6)], [(7, 8, 9), (250, 251, 252)]]"

text \<open>Reading the actions of an iteration.\<close>

fun is_click :: "action \<Rightarrow> bool" where
  "is_click (Click b) = True"
| "is_click a = False"

fun is_screenshot :: "action \<Rightarrow> bool" where
  "is_screenshot Screenshot = True"
| "is_screenshot a = False"

fun is_volume :: "action \<Rightarrow> bool" where
  "is_volume (SetMasterVolumeLevel v) = True"
| "is_volume a = False"

text \<open>A state armed for a click, and a run that arms in Mouse mode, switches to Volume
  by the mode selector, loses the hand, and switches back to Mouse.\<close>

definition armed_state :: state where
  "armed_state = init_state\<lparr>click_armed := True\<rparr>"

definition switch_trace :: "frame_in list" where
  "switch_trace =
     [frame_at (pose True True True True True (300, 300)) 1,
      frame_at (pose True True True True True (200, 50)) 4,
      frame_at (pose True True True True True (200, 50)) 6,
      frame_at (pose False True False False False (300, 300)) 7,
      frame_at [] 8,
      frame_at (pose True True True True True (300, 300)) 9,
      frame_at (pose True True True True True (60, 50)) 12,
      frame_at (pose True True True True True (60, 50)) 14]"

definition volume_state :: state where
  "volume_state = init_state\<lparr>current_mode := Volume\<rparr>"

text \<open>Painter mode with the pen lifted, and the state after a first drawing frame at (100, 100).\<close>

definition painter_state :: state where
  "painter_state = init_state\<lparr>current_mode := Painter\<rparr>"

definition painter_state1 :: state where
  "painter_state1 =
     painter_state\<lparr>xp := 100, yp := 100,
       img_canvas := [\<lparr>pt1 = (100, 100), pt2 = (100, 100),
                        stroke_color = (0, 0, 255), thickness = 10\<rparr>]\<rparr>"

text \<open>
  A run that selects the volume mode by dwelling on icon 1, releases the five-finger
  gesture, and later enters mode selection again with the fingertip over the same icon.
\<close>

definition reselect_trace :: "frame_in list" where
  "reselect_trace =
     [frame_at (pose True True True True True (300, 300)) 1,
      frame_at (pose True True True True True (200, 50)) 4,
      frame_at (pose True True True True True (200, 50)) 6,
      frame_at (pose False True False False False (300, 300)) 7,
      frame_at (pose True True True True True (200, 50)) 20,
      frame_at (pose True True True True True (200, 50)) 23]"

text \<open>A frame on which a hand is observed and the signature is the closed fist.\<close>

definition fist_frame :: "frame_in \<Rightarrow> bool" where
  "fist_frame f = (lmList f \<noteq> [] \<and> frame_fingers f = [0, 0, 0, 0, 0])"

text \<open>The number of screenshots taken by each iteration of a run.\<close>

definition screenshots :: "action list list \<Rightarrow> nat list" where
  "screenshots as = map (\<lambda>a. length (filter is_screenshot a)) as"

section \<open>The finger-state classifier\<close>

lemma fingersUp_short:
  "length lms < 21 \<Longrightarrow> fingersUp lms = [0, 0, 0, 0, 0]"
  by (simp add: fingersUp_def numeral_eq_Suc)

lemma upt_1_5: "[1 ..< 5] = [1, 2, 3, 4::nat]"
  by (simp add: upt_rec)

lemma fingersUp_full:
  "21 \<le> length lms \<Longrightarrow>
   fingersUp lms =
     [if lm_x (lms ! 4) > lm_x (lms ! 3) then 1 else 0,
      if lm_y (lms ! 8) < lm_y (lms ! 6) then 1 else 0,
      if lm_y (lms ! 12) < lm_y (lms ! 10) then 1 else 0,
      if lm_y (lms ! 16) < lm_y (lms ! 14) then 1 else 0,
      if lm_y (lms ! 20) < lm_y (lms ! 18) then 1 else 0]"
  by (simp add: fingersUp_def tipIds_def upt_1_5 numeral_eq_Suc)

lemma length_fingersUp: "length (fingersUp lms) = 5"
  by (cases "length lms < 21") (simp_all add: fingersUp_short fingersUp_full)

text \<open>
  C3. A landmark list with fewer than 21 entries gives the all-zero signature of length 5.
  With 21 entries (or more) the thumb is up exactly when x of landmark 4 is greater than
  x of landmark 3, and each of index, middle, ring and pinky is up exactly when y of its
  tip (8, 12, 16, 20) is strictly less than y of the landmark two below (6, 10, 14, 18).
\<close>

theorem C3_fingersUp_classifier:
  "(length lms < 21 \<longrightarrow>
      fingersUp lms = [0, 0, 0, 0, 0] \<and> length (fingersUp lms) = 5) \<and>
   (21 \<le> length lms \<longrightarrow>
      length (fingersUp lms) = 5 \<and>
      (\<forall>n \<in> set (fingersUp lms). n = 0 \<or> n = 1) \<and>
      (truthy (fingersUp lms ! 0) \<longleftrightarrow> lm_x (lms ! 4) > lm_x (lms ! 3)) \<and>
      (truthy (fingersUp lms ! 1) \<longleftrightarrow> lm_y (lms ! 8) < lm_y (lms ! 6)) \<and>
      (truthy (fingersUp lms ! 2) \<longleftrightarrow> lm_y (lms ! 12) < lm_y (lms ! 10)) \<and>
      (truthy (fingersUp lms ! 3) \<longleftrightarrow> lm_y (lms ! 16) < lm_y (lms ! 14)) \<and>
      (truthy (fingersUp lms ! 4) \<longleftrightarrow> lm_y (lms ! 20) < lm_y (lms ! 18)))"
  by (simp add: fingersUp_short fingersUp_full truthy_def)

lemma length_pose: "length (pose t i m r p tip) = 21"
  by (simp add: pose_def)

lemma fingersUp_pose:
  "fingersUp (pose t i m r p tip) =
     [if t then 1 else 0, if i then 1 else 0, if m then 1 else 0,
      if r then 1 else 0, if p then 1 else 0]"
  by (simp add: fingersUp_full pose_def lm_x_def lm_y_def)

theorem C3_fingersUp_classifier_witness:
  "length (take 5 (pose True True True True True (100, 100))) < 21 \<and>
   fingersUp (take 5 (pose True True True True True (100, 100))) = [0, 0, 0, 0, 0] \<and>
   21 \<le> length (pose False True False True False (100, 100)) \<and>
   fingersUp (pose False True False True False (100, 100)) = [0, 1, 0, 1, 0]"
  using C3_fingersUp_classifier [of "take 5 (pose True True True True True (100, 100))"]
        C3_fingersUp_classifier [of "pose False True False True False (100, 100)"]
  by (simp add: pose_def lm_x_def lm_y_def fingersUp_full)

section \<open>The distance operation\<close>

lemma py_get_nonneg: "0 \<le> i \<Longrightarrow> i < int (length xs) \<Longrightarrow> py_get xs i = Inr (xs ! nat i)"
  by (simp add: py_get_def)

lemma findDistance_absent:
  "int (length lms) \<le> max p1 p2 \<Longrightarrow> findDistance lms p1 p2 = Inr (0, [0, 0, 0, 0, 0, 0])"
  by (simp add: findDistance_def)

lemma findDistance_present:
  assumes "0 \<le> p1" "0 \<le> p2" "max p1 p2 < int (length lms)"
  shows "findDistance lms p1 p2 =
        Inr (sqrt ((real_of_int (lm_x (lms ! nat p2) - lm_x (lms ! nat p1)))\<^sup>2 +
                   (real_of_int (lm_y (lms ! nat p2) - lm_y (lms ! nat p1)))\<^sup>2),
             [lm_x (lms ! nat p1), lm_y (lms ! nat p1),
              lm_x (lms ! nat p2), lm_y (lms ! nat p2),
              (lm_x (lms ! nat p1) + lm_x (lms ! nat p2)) div 2,
              (lm_y (lms ! nat p1) + lm_y (lms ! nat p2)) div 2])"
proof -
  from assms have lt: "p1 < int (length lms)" "p2 < int (length lms)" by simp_all
  have g1: "py_get lms p1 = Inr (lms ! nat p1)" using assms(1) lt(1) by (rule py_get_nonneg)
  have g2: "py_get lms p2 = Inr (lms ! nat p2)" using assms(2) lt(2) by (rule py_get_nonneg)
  have ng: "\<not> int (length lms) \<le> max p1 p2" using assms(3) by linarith
  show ?thesis
    unfolding findDistance_def by (simp only: ng g1 g2 if_False sum.case Let_def hypot_def)
qed

text \<open>
  C9. For landmark indices p1 and p2 (identifiers count from 0) and every landmark list:
  when the list is no longer than max(p1, p2), the operation returns distance 0 with the
  all-zero coordinate vector, whatever the list holds; otherwise it returns the Euclidean
  distance between the two landmarks' pixel coordinates, with both points and their
  (floored) midpoint.
\<close>

theorem C9_findDistance:
  "0 \<le> p1 \<Longrightarrow> 0 \<le> p2 \<Longrightarrow>
   (int (length lms) \<le> max p1 p2 \<longrightarrow> findDistance lms p1 p2 = Inr (0, [0, 0, 0, 0, 0, 0])) \<and>
   (max p1 p2 < int (length lms) \<longrightarrow>
      findDistance lms p1 p2 =
        Inr (sqrt ((real_of_int (lm_x (lms ! nat p2) - lm_x (lms ! nat p1)))\<^sup>2 +
                   (real_of_int (lm_y (lms ! nat p2) - lm_y (lms ! nat p1)))\<^sup>2),
             [lm_x (lms ! nat p1), lm_y (lms ! nat p1),
              lm_x (lms ! nat p2), lm_y (lms ! nat p2),
              (lm_x (lms ! nat p1) + lm_x (lms ! nat p2)) div 2,
              (lm_y (lms ! nat p1) + lm_y (lms ! nat p2)) div 2]))"
  using findDistance_absent findDistance_present by blast

theorem C9_findDistance_witness:
  "(0::int) \<le> 4 \<and> (0::int) \<le> 8 \<and>
   findDistance (take 8 (pose True True True True True (100, 100))) 4 8 =
     Inr (0, [0, 0, 0, 0, 0, 0]) \<and>
   findDistance (pose True True False False False (258, 326)) 4 8 =
     Inr (5, [255, 330, 258, 326, 256, 328])"
proof -
  have s: "sqrt 25 = 5" using real_sqrt_abs [of 5] by simp
  show ?thesis
    using C9_findDistance [of 4 8 "take 8 (pose True True True True True (100, 100))"]
          C9_findDistance [of 4 8 "pose True True False False False (258, 326)"]
    by (simp add: pose_def lm_x_def lm_y_def s)
qed

section \<open>The compositor\<close>

lemma gray_of_white: "gray_of (255, 255, 255) = 255"
  by (simp add: gray_of_def)

lemma thresh_white: "thresh_binary_inv 250 255 255 = 0"
  by (simp add: thresh_binary_inv_def)

lemma saturate_add_zero: "saturate_add a 0 = a"
proof -
  have "unat a < 256" using unsigned_less [of a] by simp
  then have "min 255 (unat a) = unat a" by simp
  then show ?thesis by (simp add: saturate_add_def)
qed

lemma and_255: "(a :: 8 word) AND 255 = a"
proof -
  have "(255 :: 8 word) = - 1" by simp
  then show ?thesis by (simp only: and.right_neutral)
qed

lemma map2_keep_left:
  "length xs = length ys \<Longrightarrow> \<forall>y \<in> set ys. \<forall>x. f x y = x \<Longrightarrow> map2 f xs ys = xs"
  by (induction xs ys rule: list_induct2) simp_all

lemma map2_keep_right:
  "length xs = length ys \<Longrightarrow> \<forall>y \<in> set ys. \<forall>x. f x y = y \<Longrightarrow> map2 f xs ys = ys"
  by (induction xs ys rule: list_induct2) simp_all

lemma img_map2_keep_left:
  "shape a = shape b \<Longrightarrow> \<forall>row \<in> set b. \<forall>y \<in> set row. \<forall>x. f x y = x \<Longrightarrow>
   img_map2 f a b = Inr a"
proof (induction a arbitrary: b)
  case Nil
  then show ?case by (simp add: img_map2_def shape_def)
next
  case (Cons r a)
  then obtain c cs where b: "b = c # cs" by (cases b) (auto simp: shape_def)
  with Cons.prems have len: "length r = length c" and sh: "shape a = shape cs"
    and c: "\<forall>y \<in> set c. \<forall>x. f x y = x"
    and cs: "\<forall>row \<in> set cs. \<forall>y \<in> set row. \<forall>x. f x y = x"
    by (simp_all add: shape_def)
  from Cons.IH [OF sh cs] sh have "map2 (map2 f) a cs = a" by (simp add: img_map2_def)
  moreover have "map2 f r c = r" using len c by (rule map2_keep_left)
  ultimately show ?case using Cons.prems(1) by (simp add: img_map2_def b)
qed

lemma img_map2_keep_right:
  "shape a = shape b \<Longrightarrow> \<forall>row \<in> set b. \<forall>y \<in> set row. \<forall>x. f x y = y \<Longrightarrow>
   img_map2 f a b = Inr b"
proof (induction a arbitrary: b)
  case Nil
  then show ?case by (simp add: img_map2_def shape_def)
next
  case (Cons r a)
  then obtain c cs where b: "b = c # cs" by (cases b) (auto simp: shape_def)
  with Cons.prems have len: "length r = length c" and sh: "shape a = shape cs"
    and c: "\<forall>y \<in> set c. \<forall>x. f x y = y"
    and cs: "\<forall>row \<in> set cs. \<forall>y \<in> set row. \<forall>x. f x y = y"
    by (simp_all add: shape_def)
  from Cons.IH [OF sh cs] sh have "map2 (map2 f) a cs = cs" by (simp add: img_map2_def)
  moreover have "map2 f r c = c" using len c by (rule map2_keep_right)
  ultimately show ?case using Cons.prems(1) by (simp add: img_map2_def b)
qed

lemma shape_map_map: "shape (map (map f) img) = shape img"
  by (simp add: shape_def)

lemma bitwise_and_same_shape:
  "shape a = shape b \<Longrightarrow> bitwise_and a b = img_map2 (px_map2 (\<lambda>x y. x AND y)) a b"
  by (simp add: bitwise_and_def)

text \<open>
  C8. Compositing an all-white canvas (every pixel (255, 255, 255)) of the frame's shape
  with any frame that has pixels returns the frame itself: every white pixel is over the
  threshold 250, so the inverted mask is 0 everywhere, the frame is kept and nothing of
  the canvas is added.
\<close>

theorem C8_overlay_white_canvas:
  assumes sh: "shape canvas = shape img"
    and wh: "\<forall>row \<in> set canvas. \<forall>px \<in> set row. px = (255, 255, 255)"
    and ne: "\<not> img_empty canvas"
  shows "overlay_canvas img canvas = Inr img"
proof -
  define M where
    "M = map (map gray2bgr) (map (map (thresh_binary_inv 250 255)) (map (map gray_of) canvas))"
  define N where "N = map (map (px_map (\<lambda>v. 255 - v))) M"
  have shM: "shape M = shape canvas" by (simp add: M_def shape_def)
  have shN: "shape N = shape canvas" by (simp add: N_def shape_def M_def)
  have px: "gray2bgr (thresh_binary_inv 250 255 (gray_of p)) = (0, 0, 0)"
    if "row \<in> set canvas" "p \<in> set row" for row p
  proof -
    from wh that have "p = (255, 255, 255)" by blast
    then show ?thesis by (simp add: gray_of_white thresh_white gray2bgr_def)
  qed
  have blackM: "\<forall>row \<in> set M. \<forall>y \<in> set row. y = (0, 0, 0)"
    unfolding M_def by (simp add: px)
  have whiteN: "\<forall>row \<in> set N. \<forall>y \<in> set row. y = (255, 255, 255)"
    unfolding N_def M_def by (simp add: px px_map_def)
  have e1: "shape img = shape N" using sh shN by simp
  have 1: "bitwise_and img N = Inr img"
    unfolding bitwise_and_same_shape [OF e1]
  proof (rule img_map2_keep_left)
    show "shape img = shape N" using sh shN by simp
    show "\<forall>row \<in> set N. \<forall>y \<in> set row. \<forall>x. px_map2 (\<lambda>x y. x AND y) x y = x"
    proof (intro ballI allI)
      fix row y x assume "row \<in> set N" "y \<in> set row"
      with whiteN have "y = (255, 255, 255)" by blast
      then show "px_map2 (\<lambda>x y. x AND y) x y = x"
        by (cases x) (simp add: px_map2_def and_255)
    qed
  qed
  have e2: "shape canvas = shape M" using shM by simp
  have 2: "bitwise_and canvas M = Inr M"
    unfolding bitwise_and_same_shape [OF e2]
  proof (rule img_map2_keep_right)
    show "shape canvas = shape M" using shM by simp
    show "\<forall>row \<in> set M. \<forall>y \<in> set row. \<forall>x. px_map2 (\<lambda>x y. x AND y) x y = y"
    proof (intro ballI allI)
      fix row y x assume "row \<in> set M" "y \<in> set row"
      with blackM have "y = (0, 0, 0)" by blast
      then show "px_map2 (\<lambda>x y. x AND y) x y = y"
        by (cases x) (simp add: px_map2_def)
    qed
  qed
  have 3: "cv_add img M = Inr img"
    unfolding cv_add_def
  proof (rule img_map2_keep_left)
    show "shape img = shape M" using sh shM by simp
    show "\<forall>row \<in> set M. \<forall>y \<in> set row. \<forall>x. px_map2 saturate_add x y = x"
    proof (intro ballI allI)
      fix row y x assume "row \<in> set M" "y \<in> set row"
      with blackM have "y = (0, 0, 0)" by blast
      then show "px_map2 saturate_add x y = x"
        by (cases x) (simp add: px_map2_def saturate_add_zero)
    qed
  qed
  have "overlay_canvas img canvas =
          (case bitwise_and img N of
             Inl e \<Rightarrow> Inl e
           | Inr img1 \<Rightarrow>
               (case bitwise_and canvas M of Inl e \<Rightarrow> Inl e | Inr fg \<Rightarrow> cv_add img1 fg))"
    unfolding overlay_canvas_def Let_def N_def M_def using ne by simp
  then show ?thesis by (simp only: 1 2 3 sum.case)
qed

lemma replicate2: "replicate 2 x = [x, x]"
  by (simp add: numeral_2_eq_2)

theorem C8_overlay_white_canvas_witness:
  "shape (white_canvas 2 2) = shape sample_frame \<and>
   white_canvas 2 2 = [[(255, 255, 255), (255, 255, 255)], [(255, 255, 255), (255, 255, 255)]] \<and>
   img_empty (white_canvas 2 2) = False \<and>
   overlay_canvas sample_frame (white_canvas 2 2) = Inr sample_frame"
proof -
  have h1: "shape (white_canvas 2 2) = shape sample_frame"
    by (simp add: white_canvas_def shape_def replicate2 sample_frame_def)
  have h2: "\<forall>row \<in> set (white_canvas 2 2). \<forall>px \<in> set row. px = (255, 255, 255)"
    by (simp add: white_canvas_def)
  have h3: "white_canvas 2 2 =
      [[(255, 255, 255), (255, 255, 255)], [(255, 255, 255), (255, 255, 255)]]"
    by (simp add: white_canvas_def replicate2)
  have h4: "\<not> img_empty (white_canvas 2 2)"
    by (simp add: white_canvas_def replicate2 img_empty_def)
  from h4 have h5: "img_empty (white_canvas 2 2) = False" by simp
  from C8_overlay_white_canvas [OF h1 h2 h4] h1 h3 h5 show ?thesis by (intro conjI)
qed

text \<open>A drawn pixel, by contrast, replaces the pixel of the frame.\<close>

lemma overlay_red_stroke:
  "overlay_canvas [[(10, 20, 30)]] [[(0, 0, 255)]] = Inr [[(0, 0, 255)]]"
  by (simp add: overlay_canvas_def img_empty_def bitwise_and_def cv_add_def img_map2_def
      shape_def gray_of_def thresh_binary_inv_def gray2bgr_def px_map_def px_map2_def
      saturate_add_def)

text \<open>
  Outside the hypotheses: a canvas without pixels makes the colour conversion raise, a
  canvas of another shape than the frame makes the masking raise, and a frame of a single
  pixel is taken for a scalar, so that the composite has the shape of the canvas.
\<close>

lemma overlay_empty_canvas:
  "overlay_canvas [] [] = Inl Cv2Error" "overlay_canvas [[]] [[]] = Inl Cv2Error"
  by (simp_all add: overlay_canvas_def img_empty_def)

lemma overlay_shape_mismatch:
  "overlay_canvas sample_frame [[(255, 255, 255), (255, 255, 255)]] = Inl Cv2Error"
  by (simp add: overlay_canvas_def img_empty_def bitwise_and_def scalar_shaped_def shape_def
      sample_frame_def)

lemma overlay_single_pixel_frame:
  "overlay_canvas [[(10, 20, 30)]] (white_canvas 2 2) =
     Inr [[(10, 10, 10), (10, 10, 10)], [(10, 10, 10), (10, 10, 10)]]"
  by (simp add: overlay_canvas_def img_empty_def bitwise_and_def cv_add_def img_map2_def
      scalar_shaped_def as_scalar_def shape_def white_canvas_def replicate2 gray_of_def
      thresh_binary_inv_def gray2bgr_def px_map_def px_map2_def saturate_add_def)

section \<open>Sample frames\<close>

lemma frame_at_simps:
  "lmList (frame_at l t) = l" "cTime (frame_at l t) = t" "hTime (frame_at l t) = t"
  by (simp_all add: frame_at_def)

lemma pose_nonempty: "pose t i m r p tip \<noteq> []"
  by (simp add: pose_def)

lemma pose_tip:
  "lm_x (pose t i m r p tip ! 8) = fst tip" "lm_y (pose t i m r p tip ! 8) = snd tip"
  by (simp_all add: pose_def lm_x_def lm_y_def)

lemma frame_fingers_pose:
  "frame_fingers (frame_at (pose t i m r p tip) u) =
     [if t then 1 else 0, if i then 1 else 0, if m then 1 else 0,
      if r then 1 else 0, if p then 1 else 0]"
  by (simp add: frame_fingers_def frame_at_simps pose_nonempty fingersUp_pose)

lemma frame_fingers_no_hand: "frame_fingers (frame_at [] u) = [0, 0, 0, 0, 0]"
  by (simp add: frame_fingers_def frame_at_simps)

lemmas stage_defs =
  frame_step_def gestures_def screenshot_stage_def mode_select_stage_def mouse_dispatch_def
  volume_dispatch_def scroll_dispatch_def painter_dispatch_def truthy_def any_from_def Let_def
  SCREENSHOT_HOLD_def MODE_SELECT_HOLD_def

lemmas sample_simps =
  frame_at_simps pose_nonempty pose_tip frame_fingers_pose frame_fingers_no_hand length_pose
  init_state_def

section \<open>Frames without a hand\<close>

lemma frame_step_no_hand:
  "lmList f = [] \<Longrightarrow>
   frame_step d e f s =
     (case d of MainPy \<Rightarrow> s
              | GuiPy \<Rightarrow> (if \<not> selecting_mode s then s\<lparr>hovered_icon := -1\<rparr> else s), [])"
  by (simp add: frame_step_def)

text \<open>
  C2, as amended. On a frame where no hand is observed the loop emits no action and touches
  no hold timer: the screenshot and the mode-select start times keep the values they had
  (they are not reset), and the whole state is unchanged, except that the GUI driver
  clears the hovered icon while no mode selection is going on.
\<close>

theorem C2_no_hand_frame:
  "lmList f = [] \<Longrightarrow>
   snd (frame_step d e f s) = [] \<and>
   screenshot_start (fst (frame_step d e f s)) = screenshot_start s \<and>
   select_mode_start (fst (frame_step d e f s)) = select_mode_start s \<and>
   fst (frame_step d e f s) =
     (if d = GuiPy \<and> \<not> selecting_mode s then s\<lparr>hovered_icon := -1\<rparr> else s)"
  by (cases d) (simp_all add: frame_step_no_hand)

theorem C2_no_hand_frame_witness:
  "lmList (frame_at [] 2) = [] \<and>
   snd (frame_step GuiPy sample_env (frame_at [] 2) init_state) = [] \<and>
   fst (frame_step GuiPy sample_env (frame_at [] 2) (init_state\<lparr>screenshot_start := 1\<rparr>)) =
     init_state\<lparr>screenshot_start := 1\<rparr>"
  using C2_no_hand_frame [of "frame_at [] 2" GuiPy sample_env init_state]
        C2_no_hand_frame [of "frame_at [] 2" GuiPy sample_env "init_state\<lparr>screenshot_start := 1\<rparr>"]
  by (simp add: frame_at_simps init_state_def)

text \<open>
  C2 as stated fails: a fist frame at time 1 starts the screenshot timer, and the
  frame without a hand that follows leaves the start time at 1 instead of unsetting it.
\<close>

theorem C2_no_hand_keeps_timer_counterexample:
  "lmList (frame_at [] 2) = [] \<and>
   screenshot_start (fst (frame_step MainPy sample_env (frame_at fist_hand 1) init_state)) = 1 \<and>
   screenshot_start
     (fst (frame_step MainPy sample_env (frame_at [] 2)
        (fst (frame_step MainPy sample_env (frame_at fist_hand 1) init_state)))) = 1"
  by (simp add: stage_defs sample_simps fist_hand_def)

section \<open>Mouse mode: arming and clicking\<close>

lemma screenshot_stage_fields:
  "selecting_mode (fst (screenshot_stage fs t s)) = selecting_mode s"
  "select_mode_start (fst (screenshot_stage fs t s)) = select_mode_start s"
  "current_mode (fst (screenshot_stage fs t s)) = current_mode s"
  "click_armed (fst (screenshot_stage fs t s)) = click_armed s"
  by (simp_all add: screenshot_stage_def)

lemma mode_select_stage_fields:
  "current_mode (mode_select_stage fs t s) = current_mode s"
  "click_armed (mode_select_stage fs t s) = click_armed s"
  "screenshot_start (mode_select_stage fs t s) = screenshot_start s"
  by (simp_all add: mode_select_stage_def)

lemma selecting_after_screenshot:
  "selecting_mode (mode_select_stage fs t (fst (screenshot_stage fs t s))) =
   selecting_mode (mode_select_stage fs t s)"
  by (simp add: mode_select_stage_def screenshot_stage_fields)

lemma screenshot_stage_no_click: "filter is_click (snd (screenshot_stage fs t s)) = []"
  by (simp add: screenshot_stage_def)

lemma screenshot_stage_not_fist:
  "fs \<noteq> [0, 0, 0, 0, 0] \<Longrightarrow> snd (screenshot_stage fs t s) = []"
  by (simp add: screenshot_stage_def)

lemma gestures_mouse:
  assumes "\<not> selecting_mode (mode_select_stage fs (cTime f) s)"
    and "current_mode s = Mouse" and "length (lmList f) > 12"
  shows "gestures d e f fs s =
     (fst (mouse_dispatch e (lmList f) fs
             (mode_select_stage fs (cTime f) (fst (screenshot_stage fs (cTime f) s)))),
      snd (screenshot_stage fs (cTime f) s) @
      snd (mouse_dispatch e (lmList f) fs
             (mode_select_stage fs (cTime f) (fst (screenshot_stage fs (cTime f) s)))))"
  using assms
  by (simp add: gestures_def Let_def split_beta selecting_after_screenshot
        mode_select_stage_fields screenshot_stage_fields)

lemma frame_step_armed:
  "click_armed (fst (frame_step d e f s)) =
   click_armed (fst (if lmList f \<noteq> [] then gestures d e f (frame_fingers f) s else (s, [])))"
  by (cases d) (simp_all add: frame_step_def Let_def split_beta)

lemma frame_step_actions:
  "snd (frame_step d e f s) =
   snd (if lmList f \<noteq> [] then gestures d e f (frame_fingers f) s else (s, []))"
  by (simp add: frame_step_def Let_def split_beta)

lemma mouse_dispatch_armed:
  "click_armed (fst (mouse_dispatch e lms fs s)) =
     (if truthy (fs ! 1) \<and> truthy (fs ! 2) then True
      else if click_armed s \<and> \<not> truthy (fs ! 1) then False
      else click_armed s)"
  by (simp add: mouse_dispatch_def Let_def)

lemma mouse_dispatch_clicks:
  "filter is_click (snd (mouse_dispatch e lms fs s)) =
     (if truthy (fs ! 1) \<and> truthy (fs ! 2) then []
      else if click_armed s \<and> \<not> truthy (fs ! 1) \<and> truthy (fs ! 2) then [Click LeftButton]
      else if click_armed s \<and> \<not> truthy (fs ! 1) \<and> \<not> truthy (fs ! 2) then [Click RightButton]
      else [])"
  by (simp add: mouse_dispatch_def Let_def)

text \<open>
  C4. In Mouse mode, on a frame with more than 12 landmarks and with mode selection
  inactive when the dispatch is reached: index and middle both up arms the click and emits
  no click; while armed, index down with middle up emits exactly one left click and
  disarms; while armed, index and middle both down emits exactly one right click and
  disarms; while armed, the remaining signature (index up, middle down) leaves the state
  armed and emits no click.
\<close>

theorem C4_mouse_click_arming:
  assumes "length (lmList f) > 12" and "current_mode s = Mouse"
    and "\<not> selecting_mode (mode_select_stage (frame_fingers f) (cTime f) s)"
  shows
   "(truthy (frame_fingers f ! 1) \<and> truthy (frame_fingers f ! 2) \<longrightarrow>
       click_armed (fst (frame_step d e f s)) \<and>
       filter is_click (snd (frame_step d e f s)) = []) \<and>
    (click_armed s \<and> \<not> truthy (frame_fingers f ! 1) \<and> truthy (frame_fingers f ! 2) \<longrightarrow>
       \<not> click_armed (fst (frame_step d e f s)) \<and>
       filter is_click (snd (frame_step d e f s)) = [Click LeftButton]) \<and>
    (click_armed s \<and> \<not> truthy (frame_fingers f ! 1) \<and> \<not> truthy (frame_fingers f ! 2) \<longrightarrow>
       \<not> click_armed (fst (frame_step d e f s)) \<and>
       filter is_click (snd (frame_step d e f s)) = [Click RightButton]) \<and>
    (click_armed s \<and> truthy (frame_fingers f ! 1) \<and> \<not> truthy (frame_fingers f ! 2) \<longrightarrow>
       click_armed (fst (frame_step d e f s)) \<and>
       filter is_click (snd (frame_step d e f s)) = [])"
proof -
  from assms(1) have ne: "lmList f \<noteq> []" by auto
  note g = gestures_mouse [OF assms(3) assms(2) assms(1), of d e]
  have armed: "click_armed (fst (frame_step d e f s)) =
      (if truthy (frame_fingers f ! 1) \<and> truthy (frame_fingers f ! 2) then True
       else if click_armed s \<and> \<not> truthy (frame_fingers f ! 1) then False
       else click_armed s)"
    by (simp add: frame_step_armed ne g mouse_dispatch_armed mode_select_stage_fields
          screenshot_stage_fields)
  have clicks: "filter is_click (snd (frame_step d e f s)) =
     (if truthy (frame_fingers f ! 1) \<and> truthy (frame_fingers f ! 2) then []
      else if click_armed s \<and> \<not> truthy (frame_fingers f ! 1) \<and> truthy (frame_fingers f ! 2)
        then [Click LeftButton]
      else if click_armed s \<and> \<not> truthy (frame_fingers f ! 1) \<and> \<not> truthy (frame_fingers f ! 2)
        then [Click RightButton]
      else [])"
    by (simp add: frame_step_actions ne g mouse_dispatch_clicks screenshot_stage_no_click
          mode_select_stage_fields screenshot_stage_fields)
  show ?thesis by (simp add: armed clicks)
qed

theorem C4_mouse_click_arming_witness:
  "length (lmList (frame_at (pose False False True False False (300, 300)) 5)) > 12 \<and>
   current_mode armed_state = Mouse \<and>
   \<not> selecting_mode (mode_select_stage
        (frame_fingers (frame_at (pose False False True False False (300, 300)) 5))
        (cTime (frame_at (pose False False True False False (300, 300)) 5)) armed_state) \<and>
   click_armed armed_state \<and>
   \<not> click_armed (fst (frame_step MainPy sample_env
        (frame_at (pose False False True False False (300, 300)) 5) armed_state)) \<and>
   filter is_click (snd (frame_step MainPy sample_env
        (frame_at (pose False False True False False (300, 300)) 5) armed_state)) =
     [Click LeftButton]"
  using C4_mouse_click_arming [of "frame_at (pose False False True False False (300, 300)) 5" armed_state
              MainPy sample_env]
  by (simp add: sample_simps armed_state_def mode_select_stage_def truthy_def)

section \<open>Where the click arming can change\<close>

lemma check_hover_loop_armed: "click_armed (check_hover_loop d xs p t s) = click_armed s"
proof (induction xs)
  case Nil
  show ?case by simp
next
  case (Cons x xs)
  obtain i pos where x: "x = (i, pos)" by (cases x)
  show ?case using Cons.IH by (cases d) (simp_all add: x)
qed

lemma check_hover_armed: "click_armed (check_hover d p t s) = click_armed s"
  by (simp add: check_hover_def check_hover_loop_armed)

lemma select_tool_armed: "click_armed (select_tool n s) = click_armed s"
  by (simp add: select_tool_def Let_def)

lemma select_tools_fold_armed:
  "click_armed (foldl (\<lambda>st (name, pos). if in_icon d pos p then select_tool name st else st) s xs)
   = click_armed s"
proof (induction xs arbitrary: s)
  case Nil
  show ?case by simp
next
  case (Cons x xs)
  obtain name pos where x: "x = (name, pos)" by (cases x)
  show ?case by (simp add: x Cons.IH select_tool_armed)
qed

lemma select_tools_armed: "click_armed (select_tools d p s) = click_armed s"
  by (simp add: select_tools_def select_tools_fold_armed)

lemma painter_dispatch_armed: "click_armed (painter_dispatch d lms fs s) = click_armed s"
  by (simp add: painter_dispatch_def Let_def select_tools_armed)

lemma gestures_armed_unchanged:
  assumes "selecting_mode (mode_select_stage fs (cTime f) s) \<or> current_mode s \<noteq> Mouse \<or>
           length (lmList f) \<le> 12"
  shows "click_armed (fst (gestures d e f fs s)) = click_armed s"
proof -
  define s2 where "s2 = mode_select_stage fs (cTime f) (fst (screenshot_stage fs (cTime f) s))"
  have sel: "selecting_mode s2 = selecting_mode (mode_select_stage fs (cTime f) s)"
    by (simp add: s2_def selecting_after_screenshot)
  have cm: "current_mode s2 = current_mode s"
    by (simp add: s2_def mode_select_stage_fields screenshot_stage_fields)
  have ca: "click_armed s2 = click_armed s"
    by (simp add: s2_def mode_select_stage_fields screenshot_stage_fields)
  have g: "fst (gestures d e f fs s) =
      (if selecting_mode s2 then
         (if length (lmList f) > 8
          then check_hover d (lm_x (lmList f ! 8), lm_y (lmList f ! 8)) (hTime f) s2 else s2)
       else if current_mode s2 = Mouse \<and> length (lmList f) > 12
         then fst (mouse_dispatch e (lmList f) fs s2)
       else if current_mode s2 = Volume \<and> length (lmList f) > 8 \<and> volume_present e then s2
       else if current_mode s2 = Painter then painter_dispatch d (lmList f) fs s2
       else s2)"
    by (simp add: gestures_def Let_def split_beta s2_def)
  show ?thesis
  proof (cases "selecting_mode s2")
    case True
    then show ?thesis by (simp add: g check_hover_armed ca)
  next
    case False
    with assms sel cm have nm: "(current_mode s2 = Mouse \<and> length (lmList f) > 12) = False"
      by auto
    from False show ?thesis by (simp add: g nm painter_dispatch_armed ca)
  qed
qed

lemma selecting_stays: "selecting_mode s \<Longrightarrow> selecting_mode (mode_select_stage fs t s)"
  by (simp add: mode_select_stage_def)

lemma frame_step_armed_unchanged:
  assumes "lmList f = [] \<or> selecting_mode s \<or>
           selecting_mode (mode_select_stage (frame_fingers f) (cTime f) s) \<or>
           current_mode s \<noteq> Mouse \<or> length (lmList f) \<le> 12"
  shows "click_armed (fst (frame_step d e f s)) = click_armed s"
proof (cases "lmList f = []")
  case True
  then show ?thesis by (simp add: frame_step_armed)
next
  case False
  with assms have "selecting_mode (mode_select_stage (frame_fingers f) (cTime f) s) \<or>
      current_mode s \<noteq> Mouse \<or> length (lmList f) \<le> 12"
    using selecting_stays by blast
  then show ?thesis using False by (simp add: frame_step_armed gestures_armed_unchanged)
qed

lemmas hover_defs = check_hover_def in_icon_def HOVER_HOLD_def mode_names_def

lemma fst_run_Cons: "fst (run d e (f # fs) s) = fst (run d e fs (fst (frame_step d e f s)))"
  by (simp add: split_beta)

lemma fst_run_Nil: "fst (run d e [] s) = s"
  by simp

lemma sw1:
  "fst (frame_step MainPy sample_env (frame_at (pose True True True True True (300, 300)) 1)
         init_state)
   = init_state\<lparr>select_mode_start := 1, click_armed := True\<rparr>"
  by (simp add: stage_defs sample_simps)

lemma sw2:
  "fst (frame_step MainPy sample_env (frame_at (pose True True True True True (200, 50)) 4)
         (init_state\<lparr>select_mode_start := 1, click_armed := True\<rparr>))
   = init_state\<lparr>select_mode_start := 1, click_armed := True, selecting_mode := True,
                  hovered_icon := 1, hover_start := 4\<rparr>"
  by (simp add: stage_defs sample_simps hover_defs)

lemma sw3:
  "fst (frame_step MainPy sample_env (frame_at (pose True True True True True (200, 50)) 6)
         (init_state\<lparr>select_mode_start := 1, click_armed := True, selecting_mode := True,
                  hovered_icon := 1, hover_start := 4\<rparr>))
   = init_state\<lparr>select_mode_start := 1, click_armed := True, selecting_mode := False,
                  hovered_icon := 1, hover_start := 4, current_mode := Volume\<rparr>"
  by (simp add: stage_defs sample_simps hover_defs)

lemma sw4:
  "fst (frame_step MainPy sample_env (frame_at (pose False True False False False (300, 300)) 7)
         (init_state\<lparr>select_mode_start := 1, click_armed := True, selecting_mode := False,
                  hovered_icon := 1, hover_start := 4, current_mode := Volume\<rparr>))
   = init_state\<lparr>select_mode_start := 0, click_armed := True, selecting_mode := False,
                  hovered_icon := 1, hover_start := 4, current_mode := Volume\<rparr>"
  by (simp add: stage_defs sample_simps hover_defs sample_env_def)

lemma sw5:
  "fst (frame_step MainPy sample_env (frame_at [] 8) s) = s"
  by (simp add: frame_step_no_hand frame_at_simps)

lemma sw6:
  "fst (frame_step MainPy sample_env (frame_at (pose True True True True True (300, 300)) 9)
         (init_state\<lparr>select_mode_start := 0, click_armed := True, selecting_mode := False,
                  hovered_icon := 1, hover_start := 4, current_mode := Volume\<rparr>))
   = init_state\<lparr>select_mode_start := 9, click_armed := True, selecting_mode := False,
                  hovered_icon := 1, hover_start := 4, current_mode := Volume\<rparr>"
  by (simp add: stage_defs sample_simps hover_defs sample_env_def)

lemma sw7:
  "fst (frame_step MainPy sample_env (frame_at (pose True True True True True (60, 50)) 12)
         (init_state\<lparr>select_mode_start := 9, click_armed := True, selecting_mode := False,
                  hovered_icon := 1, hover_start := 4, current_mode := Volume\<rparr>))
   = init_state\<lparr>select_mode_start := 9, click_armed := True, selecting_mode := True,
                  hovered_icon := 0, hover_start := 12, current_mode := Volume\<rparr>"
  by (simp add: stage_defs sample_simps hover_defs sample_env_def)

lemma sw8:
  "fst (frame_step MainPy sample_env (frame_at (pose True True True True True (60, 50)) 14)
         (init_state\<lparr>select_mode_start := 9, click_armed := True, selecting_mode := True,
                  hovered_icon := 0, hover_start := 12, current_mode := Volume\<rparr>))
   = init_state\<lparr>select_mode_start := 9, click_armed := True, selecting_mode := False,
                  hovered_icon := 0, hover_start := 12, current_mode := Mouse\<rparr>"
  by (simp add: stage_defs sample_simps hover_defs sample_env_def)

lemma switch_trace_run:
  "fst (run MainPy sample_env switch_trace init_state)
   = init_state\<lparr>select_mode_start := 9, click_armed := True, selecting_mode := False,
                  hovered_icon := 0, hover_start := 12, current_mode := Mouse\<rparr>"
  unfolding switch_trace_def
  by (simp only: fst_run_Cons fst_run_Nil sw1 sw2 sw3 sw4 sw5 sw6 sw7 sw8)

lemma switch_trace_take3:
  "fst (run MainPy sample_env (take 3 switch_trace) init_state)
   = init_state\<lparr>select_mode_start := 1, click_armed := True, selecting_mode := False,
                  hovered_icon := 1, hover_start := 4, current_mode := Volume\<rparr>"
proof -
  have "take 3 switch_trace =
     [frame_at (pose True True True True True (300, 300)) 1,
      frame_at (pose True True True True True (200, 50)) 4,
      frame_at (pose True True True True True (200, 50)) 6]"
    by (simp add: switch_trace_def)
  then show ?thesis by (simp only: fst_run_Cons fst_run_Nil sw1 sw2 sw3)
qed

lemma switch_trace_click:
  "frame_step MainPy sample_env (frame_at (pose False False True False False (300, 300)) 15)
     (init_state\<lparr>select_mode_start := 9, click_armed := True, selecting_mode := False,
                  hovered_icon := 0, hover_start := 12, current_mode := Mouse\<rparr>)
   = (init_state\<lparr>select_mode_start := 0, click_armed := False, selecting_mode := False,
                  hovered_icon := 0, hover_start := 12, current_mode := Mouse\<rparr>,
      [Click LeftButton])"
  by (simp add: stage_defs sample_simps)

text \<open>
  C10. The armed flag changes only in the Mouse-mode dispatch: a frame without a hand, a
  frame with mode selection active (before or after this frame's entry step), a frame in
  another mode and a frame with at most 12 landmarks all leave it as it was. So an arming
  survives a switch to Volume, a lost hand and the switch back: in the sample run the
  flag set by the first frame fires a left click on the first Mouse-mode frame after the
  return.
\<close>

theorem C10_click_armed_frame:
  "(lmList f = [] \<or> selecting_mode s \<or>
    selecting_mode (mode_select_stage (frame_fingers f) (cTime f) s) \<or>
    current_mode s \<noteq> Mouse \<or> length (lmList f) \<le> 12
      \<longrightarrow> click_armed (fst (frame_step d e f s)) = click_armed s) \<and>
   current_mode (fst (run MainPy sample_env (take 3 switch_trace) init_state)) = Volume \<and>
   current_mode (fst (run MainPy sample_env switch_trace init_state)) = Mouse \<and>
   click_armed (fst (run MainPy sample_env switch_trace init_state)) \<and>
   snd (frame_step MainPy sample_env (frame_at (pose False False True False False (300, 300)) 15)
          (fst (run MainPy sample_env switch_trace init_state))) = [Click LeftButton]"
proof (intro conjI impI)
  assume "lmList f = [] \<or> selecting_mode s \<or>
    selecting_mode (mode_select_stage (frame_fingers f) (cTime f) s) \<or>
    current_mode s \<noteq> Mouse \<or> length (lmList f) \<le> 12"
  then show "click_armed (fst (frame_step d e f s)) = click_armed s"
    by (rule frame_step_armed_unchanged)
next
  show "current_mode (fst (run MainPy sample_env (take 3 switch_trace) init_state)) = Volume"
    by (simp add: switch_trace_take3)
next
  show "current_mode (fst (run MainPy sample_env switch_trace init_state)) = Mouse"
    by (simp add: switch_trace_run)
next
  show "click_armed (fst (run MainPy sample_env switch_trace init_state))"
    by (simp add: switch_trace_run)
next
  show "snd (frame_step MainPy sample_env
          (frame_at (pose False False True False False (300, 300)) 15)
          (fst (run MainPy sample_env switch_trace init_state))) = [Click LeftButton]"
    by (simp add: switch_trace_run switch_trace_click)
qed

theorem C10_click_armed_frame_witness:
  "lmList (frame_at [] 8) = [] \<and>
   click_armed (fst (frame_step GuiPy sample_env (frame_at [] 8) armed_state)) \<and>
   current_mode (armed_state\<lparr>current_mode := Scroll\<rparr>) \<noteq> Mouse \<and>
   click_armed (fst (frame_step MainPy sample_env
      (frame_at (pose False False True False False (300, 300)) 9)
      (armed_state\<lparr>current_mode := Scroll\<rparr>)))"
  using C10_click_armed_frame [of "frame_at [] 8" armed_state GuiPy sample_env]
        C10_click_armed_frame [of "frame_at (pose False False True False False (300, 300)) 9"
           "armed_state\<lparr>current_mode := Scroll\<rparr>" MainPy sample_env]
  by (simp add: frame_at_simps armed_state_def)

section \<open>Volume mode\<close>

lemma findDistance_4_8:
  assumes "length lms > 8"
  shows "findDistance lms 4 8 =
     Inr (hypot (real_of_int (lm_x (lms ! 8) - lm_x (lms ! 4)))
                (real_of_int (lm_y (lms ! 8) - lm_y (lms ! 4))),
          [lm_x (lms ! 4), lm_y (lms ! 4), lm_x (lms ! 8), lm_y (lms ! 8),
           (lm_x (lms ! 4) + lm_x (lms ! 8)) div 2, (lm_y (lms ! 4) + lm_y (lms ! 8)) div 2])"
proof -
  have "max 4 8 < int (length lms)" using assms by simp
  from findDistance_present [OF _ _ this] show ?thesis by (simp add: hypot_def)
qed

lemma volume_dispatch_level:
  "length lms > 8 \<Longrightarrow>
   volume_dispatch e lms =
     [SetMasterVolumeLevel
        (interp (hypot (real_of_int (lm_x (lms ! 8) - lm_x (lms ! 4)))
                       (real_of_int (lm_y (lms ! 8) - lm_y (lms ! 4))))
                (20, 200) (vol_min e, vol_max e))]"
  by (simp add: volume_dispatch_def findDistance_4_8)

lemma screenshot_stage_no_volume: "filter is_volume (snd (screenshot_stage fs t s)) = []"
  by (simp add: screenshot_stage_def)

lemma gestures_volume:
  assumes "\<not> selecting_mode (mode_select_stage fs (cTime f) s)"
    and "current_mode s = Volume" and "length (lmList f) > 8" and "volume_present e"
  shows "snd (gestures d e f fs s) =
           snd (screenshot_stage fs (cTime f) s) @ volume_dispatch e (lmList f)"
  using assms
  by (simp add: gestures_def Let_def split_beta selecting_after_screenshot
        mode_select_stage_fields screenshot_stage_fields)

lemma interp_clamp:
  "x \<le> 20 \<Longrightarrow> interp x (20, 200) (lo, hi) = lo"
  "200 \<le> x \<Longrightarrow> interp x (20, 200) (lo, hi) = hi"
  "20 < x \<Longrightarrow> x < 200 \<Longrightarrow> interp x (20, 200) (lo, hi) = lo + (x - 20) * (hi - lo) / 180"
  by (simp_all add: interp_def)

text \<open>
  C7. In Volume mode, on a frame with more than 8 landmarks (thumb tip 4 and index tip 8
  present), a volume device available and mode selection inactive when the dispatch is
  reached, the loop sets exactly one volume level: the interpolation of the Euclidean
  distance between the two tips from [20, 200] onto [vol_min, vol_max], which is vol_min
  up to distance 20, vol_max from distance 200 on (so at 300 as well) and the straight
  line between.
\<close>

theorem C7_volume_level:
  assumes "current_mode s = Volume" and "length (lmList f) > 8" and "volume_present e"
    and "\<not> selecting_mode (mode_select_stage (frame_fingers f) (cTime f) s)"
  shows
   "filter is_volume (snd (frame_step d e f s)) =
      [SetMasterVolumeLevel
         (interp (hypot (real_of_int (lm_x (lmList f ! 8) - lm_x (lmList f ! 4)))
                        (real_of_int (lm_y (lmList f ! 8) - lm_y (lmList f ! 4))))
                 (20, 200) (vol_min e, vol_max e))] \<and>
    (\<forall>x. (x \<le> 20 \<longrightarrow> interp x (20, 200) (vol_min e, vol_max e) = vol_min e) \<and>
         (200 \<le> x \<longrightarrow> interp x (20, 200) (vol_min e, vol_max e) = vol_max e) \<and>
         (20 < x \<and> x < 200 \<longrightarrow>
            interp x (20, 200) (vol_min e, vol_max e) =
              vol_min e + (x - 20) * (vol_max e - vol_min e) / 180)) \<and>
    interp 20 (20, 200) (vol_min e, vol_max e) = vol_min e \<and>
    interp 200 (20, 200) (vol_min e, vol_max e) = vol_max e \<and>
    interp 300 (20, 200) (vol_min e, vol_max e) = vol_max e"
proof -
  from assms(2) have ne: "lmList f \<noteq> []" by auto
  have "filter is_volume (snd (frame_step d e f s)) = volume_dispatch e (lmList f)"
    by (simp add: frame_step_actions ne gestures_volume [OF assms(4) assms(1) assms(2) assms(3)]
          screenshot_stage_no_volume volume_dispatch_level [OF assms(2)])
  then show ?thesis
    by (simp add: volume_dispatch_level [OF assms(2)] interp_clamp)
qed

lemma hypot_vertical: "hypot 0 b = \<bar>b\<bar>"
  by (simp add: hypot_def)

theorem C7_volume_level_witness:
  "current_mode volume_state = Volume \<and> volume_present sample_env \<and>
   length (lmList (frame_at (pose False True False False False (245, 30)) 5)) > 8 \<and>
   \<not> selecting_mode (mode_select_stage
        (frame_fingers (frame_at (pose False True False False False (245, 30)) 5))
        (cTime (frame_at (pose False True False False False (245, 30)) 5)) volume_state) \<and>
   filter is_volume (snd (frame_step MainPy sample_env
        (frame_at (pose False True False False False (245, 30)) 5) volume_state)) =
     [SetMasterVolumeLevel 0] \<and>
   filter is_volume (snd (frame_step MainPy sample_env
        (frame_at (pose False True False False False (245, 220)) 5) volume_state)) =
     [SetMasterVolumeLevel (- 65 / 2)]"
  using C7_volume_level [of volume_state "frame_at (pose False True False False False (245, 30)) 5"
              sample_env MainPy]
        C7_volume_level [of volume_state "frame_at (pose False True False False False (245, 220)) 5"
              sample_env MainPy]
  by (simp add: sample_simps volume_state_def mode_select_stage_def sample_env_def
        pose_def lm_x_def lm_y_def hypot_vertical interp_def)

section \<open>Painter mode: strokes\<close>

lemma screenshot_stage_pen:
  "xp (fst (screenshot_stage fs t s)) = xp s"
  "yp (fst (screenshot_stage fs t s)) = yp s"
  "img_canvas (fst (screenshot_stage fs t s)) = img_canvas s"
  "draw_color (fst (screenshot_stage fs t s)) = draw_color s"
  "brush_thickness (fst (screenshot_stage fs t s)) = brush_thickness s"
  by (simp_all add: screenshot_stage_def)

lemma mode_select_stage_pen:
  "xp (mode_select_stage fs t s) = xp s"
  "yp (mode_select_stage fs t s) = yp s"
  "img_canvas (mode_select_stage fs t s) = img_canvas s"
  "draw_color (mode_select_stage fs t s) = draw_color s"
  "brush_thickness (mode_select_stage fs t s) = brush_thickness s"
  by (simp_all add: mode_select_stage_def)

lemma select_tool_pen:
  "xp (select_tool n s) = xp s" "yp (select_tool n s) = yp s"
  "img_canvas (select_tool n s) = img_canvas s"
  by (simp_all add: select_tool_def Let_def)

lemma select_tools_fold_pen:
  "xp (foldl (\<lambda>st (name, pos). if in_icon d pos p then select_tool name st else st) s xs) = xp s \<and>
   yp (foldl (\<lambda>st (name, pos). if in_icon d pos p then select_tool name st else st) s xs) = yp s \<and>
   img_canvas (foldl (\<lambda>st (name, pos). if in_icon d pos p then select_tool name st else st) s xs)
     = img_canvas s"
proof (induction xs arbitrary: s)
  case Nil
  show ?case by simp
next
  case (Cons x xs)
  obtain name pos where x: "x = (name, pos)" by (cases x)
  show ?case by (simp add: x Cons.IH select_tool_pen)
qed

lemma select_tools_pen:
  "xp (select_tools d p s) = xp s" "yp (select_tools d p s) = yp s"
  "img_canvas (select_tools d p s) = img_canvas s"
  by (simp_all add: select_tools_def select_tools_fold_pen)

lemma any_from_2:
  assumes "length fs = 5" and "truthy (fs ! 2)"
  shows "any_from 2 fs"
proof -
  from assms(1) have "drop 2 fs = fs ! 2 # drop 3 fs"
    using Cons_nth_drop_Suc [of 2 fs] by (simp add: numeral_3_eq_3 numeral_2_eq_2)
  with assms(2) show ?thesis by (simp add: any_from_def)
qed

lemma length_frame_fingers: "length (frame_fingers f) = 5"
  by (simp add: frame_fingers_def length_fingersUp)

lemma painter_dispatch_draw:
  assumes "length lms > 8" and "length fs = 5" and "truthy (fs ! 1) \<and> truthy (fs ! 2)"
  shows "xp (painter_dispatch d lms fs s) = lm_x (lms ! 8)"
    and "yp (painter_dispatch d lms fs s) = lm_y (lms ! 8)"
    and "img_canvas (painter_dispatch d lms fs s) =
           img_canvas s @
           [\<lparr>pt1 = (if xp s = 0 \<and> yp s = 0 then (lm_x (lms ! 8), lm_y (lms ! 8)) else (xp s, yp s)),
             pt2 = (lm_x (lms ! 8), lm_y (lms ! 8)),
             stroke_color = draw_color s, thickness = brush_thickness s\<rparr>]"
proof -
  from assms(2,3) have af: "any_from 2 fs" using any_from_2 by blast
  show "xp (painter_dispatch d lms fs s) = lm_x (lms ! 8)"
    using assms af by (simp add: painter_dispatch_def Let_def)
  show "yp (painter_dispatch d lms fs s) = lm_y (lms ! 8)"
    using assms af by (simp add: painter_dispatch_def Let_def)
  show "img_canvas (painter_dispatch d lms fs s) =
           img_canvas s @
           [\<lparr>pt1 = (if xp s = 0 \<and> yp s = 0 then (lm_x (lms ! 8), lm_y (lms ! 8)) else (xp s, yp s)),
             pt2 = (lm_x (lms ! 8), lm_y (lms ! 8)),
             stroke_color = draw_color s, thickness = brush_thickness s\<rparr>]"
    using assms af by (simp add: painter_dispatch_def Let_def)
qed

lemma painter_dispatch_lift:
  assumes "length lms > 8" and "\<not> (truthy (fs ! 1) \<and> truthy (fs ! 2))"
  shows "xp (painter_dispatch d lms fs s) = 0"
    and "yp (painter_dispatch d lms fs s) = 0"
    and "img_canvas (painter_dispatch d lms fs s) = img_canvas s"
  using assms by (auto simp: painter_dispatch_def Let_def select_tools_pen)

lemma gestures_painter:
  assumes "\<not> selecting_mode (mode_select_stage fs (cTime f) s)"
    and "current_mode s = Painter"
  shows "fst (gestures d e f fs s) =
           painter_dispatch d (lmList f) fs
             (mode_select_stage fs (cTime f) (fst (screenshot_stage fs (cTime f) s)))"
  using assms
  by (simp add: gestures_def Let_def split_beta selecting_after_screenshot
        mode_select_stage_fields screenshot_stage_fields)

lemma frame_step_pen:
  "xp (fst (frame_step d e f s)) =
     xp (fst (if lmList f \<noteq> [] then gestures d e f (frame_fingers f) s else (s, [])))"
  "yp (fst (frame_step d e f s)) =
     yp (fst (if lmList f \<noteq> [] then gestures d e f (frame_fingers f) s else (s, [])))"
  "img_canvas (fst (frame_step d e f s)) =
     img_canvas (fst (if lmList f \<noteq> [] then gestures d e f (frame_fingers f) s else (s, [])))"
  by (cases d; simp add: frame_step_def Let_def split_beta)+

lemma painter_frame_cases:
  assumes "current_mode s = Painter" and "length (lmList f) > 8"
    and "\<not> selecting_mode (mode_select_stage (frame_fingers f) (cTime f) s)"
  shows
   "(truthy (frame_fingers f ! 1) \<and> truthy (frame_fingers f ! 2) \<and> xp s = 0 \<and> yp s = 0 \<longrightarrow>
       xp (fst (frame_step d e f s)) = lm_x (lmList f ! 8) \<and>
       yp (fst (frame_step d e f s)) = lm_y (lmList f ! 8) \<and>
       img_canvas (fst (frame_step d e f s)) =
         img_canvas s @
         [\<lparr>pt1 = (lm_x (lmList f ! 8), lm_y (lmList f ! 8)),
           pt2 = (lm_x (lmList f ! 8), lm_y (lmList f ! 8)),
           stroke_color = draw_color s, thickness = brush_thickness s\<rparr>]) \<and>
    (truthy (frame_fingers f ! 1) \<and> truthy (frame_fingers f ! 2) \<and> \<not> (xp s = 0 \<and> yp s = 0) \<longrightarrow>
       xp (fst (frame_step d e f s)) = lm_x (lmList f ! 8) \<and>
       yp (fst (frame_step d e f s)) = lm_y (lmList f ! 8) \<and>
       img_canvas (fst (frame_step d e f s)) =
         img_canvas s @
         [\<lparr>pt1 = (xp s, yp s),
           pt2 = (lm_x (lmList f ! 8), lm_y (lmList f ! 8)),
           stroke_color = draw_color s, thickness = brush_thickness s\<rparr>]) \<and>
    (\<not> (truthy (frame_fingers f ! 1) \<and> truthy (frame_fingers f ! 2)) \<longrightarrow>
       xp (fst (frame_step d e f s)) = 0 \<and>
       yp (fst (frame_step d e f s)) = 0 \<and>
       img_canvas (fst (frame_step d e f s)) = img_canvas s)"
proof -
  from assms(2) have ne: "lmList f \<noteq> []" by auto
  note g = gestures_painter [OF assms(3) assms(1), of d e]
  note pres = mode_select_stage_pen screenshot_stage_pen
  show ?thesis
  proof (cases "truthy (frame_fingers f ! 1) \<and> truthy (frame_fingers f ! 2)")
    case True
    note dr = painter_dispatch_draw [OF assms(2) length_frame_fingers True]
    have "xp (fst (frame_step d e f s)) = lm_x (lmList f ! 8)"
      "yp (fst (frame_step d e f s)) = lm_y (lmList f ! 8)"
      "img_canvas (fst (frame_step d e f s)) =
         img_canvas s @
         [\<lparr>pt1 = (if xp s = 0 \<and> yp s = 0 then (lm_x (lmList f ! 8), lm_y (lmList f ! 8))
                  else (xp s, yp s)),
           pt2 = (lm_x (lmList f ! 8), lm_y (lmList f ! 8)),
           stroke_color = draw_color s, thickness = brush_thickness s\<rparr>]"
      by (simp_all add: frame_step_pen ne g dr pres)
    with True show ?thesis by simp
  next
    case False
    note li = painter_dispatch_lift [OF assms(2) False]
    have "xp (fst (frame_step d e f s)) = 0" "yp (fst (frame_step d e f s)) = 0"
      "img_canvas (fst (frame_step d e f s)) = img_canvas s"
      by (simp_all add: frame_step_pen ne g li pres)
    with False show ?thesis by blast
  qed
qed

lemma few_landmarks_keep_pen:
  assumes "length (lmList f) \<le> 8"
  shows "xp (fst (frame_step d e f s)) = xp s"
    and "yp (fst (frame_step d e f s)) = yp s"
    and "img_canvas (fst (frame_step d e f s)) = img_canvas s"
proof -
  have g: "fst (gestures d e f fs s) =
      mode_select_stage fs (cTime f) (fst (screenshot_stage fs (cTime f) s))" for fs
    using assms by (simp add: gestures_def Let_def split_beta painter_dispatch_def)
  show "xp (fst (frame_step d e f s)) = xp s"
    by (simp add: frame_step_pen g mode_select_stage_pen screenshot_stage_pen)
  show "yp (fst (frame_step d e f s)) = yp s"
    by (simp add: frame_step_pen g mode_select_stage_pen screenshot_stage_pen)
  show "img_canvas (fst (frame_step d e f s)) = img_canvas s"
    by (simp add: frame_step_pen g mode_select_stage_pen screenshot_stage_pen)
qed

text \<open>
  C6, as amended. In Painter mode, on a frame with more than 8 landmarks and with mode
  selection inactive when the dispatch is reached: a drawing frame (index and middle up)
  at point q with the pen lifted, coded as (0, 0), sets the pen to q and makes one
  \<^verbatim>\<open>cv2.line\<close> call from q to q with the current colour and thickness (a segment of length
  zero, which OpenCV paints as a dot of the brush thickness); a drawing frame at q with
  the pen at a point p other than (0, 0) draws exactly one segment from p to q with the
  current colour and thickness and moves the pen to q; a frame whose signature is not the
  drawing gesture lifts the pen and leaves the canvas as it was. A frame with at most 8
  landmarks, so also a frame without a hand, leaves the pen and the canvas as they were,
  in every mode.
\<close>

theorem C6_painter_stroke:
  "(current_mode s = Painter \<and> length (lmList f) > 8 \<and>
    \<not> selecting_mode (mode_select_stage (frame_fingers f) (cTime f) s) \<longrightarrow>
    (truthy (frame_fingers f ! 1) \<and> truthy (frame_fingers f ! 2) \<and> xp s = 0 \<and> yp s = 0 \<longrightarrow>
        xp (fst (frame_step d e f s)) = lm_x (lmList f ! 8) \<and>
        yp (fst (frame_step d e f s)) = lm_y (lmList f ! 8) \<and>
        img_canvas (fst (frame_step d e f s)) =
          img_canvas s @
          [\<lparr>pt1 = (lm_x (lmList f ! 8), lm_y (lmList f ! 8)),
            pt2 = (lm_x (lmList f ! 8), lm_y (lmList f ! 8)),
            stroke_color = draw_color s, thickness = brush_thickness s\<rparr>]) \<and>
     (truthy (frame_fingers f ! 1) \<and> truthy (frame_fingers f ! 2) \<and> \<not> (xp s = 0 \<and> yp s = 0) \<longrightarrow>
        xp (fst (frame_step d e f s)) = lm_x (lmList f ! 8) \<and>
        yp (fst (frame_step d e f s)) = lm_y (lmList f ! 8) \<and>
        img_canvas (fst (frame_step d e f s)) =
          img_canvas s @
          [\<lparr>pt1 = (xp s, yp s),
            pt2 = (lm_x (lmList f ! 8), lm_y (lmList f ! 8)),
            stroke_color = draw_color s, thickness = brush_thickness s\<rparr>]) \<and>
     (\<not> (truthy (frame_fingers f ! 1) \<and> truthy (frame_fingers f ! 2)) \<longrightarrow>
        xp (fst (frame_step d e f s)) = 0 \<and>
        yp (fst (frame_step d e f s)) = 0 \<and>
        img_canvas (fst (frame_step d e f s)) = img_canvas s)) \<and>
   (length (lmList f) \<le> 8 \<longrightarrow>
      xp (fst (frame_step d e f s)) = xp s \<and>
      yp (fst (frame_step d e f s)) = yp s \<and>
      img_canvas (fst (frame_step d e f s)) = img_canvas s)"
proof (rule conjI)
  show "length (lmList f) \<le> 8 \<longrightarrow>
      xp (fst (frame_step d e f s)) = xp s \<and>
      yp (fst (frame_step d e f s)) = yp s \<and>
      img_canvas (fst (frame_step d e f s)) = img_canvas s"
    using few_landmarks_keep_pen by blast
next
  show "current_mode s = Painter \<and> length (lmList f) > 8 \<and>
    \<not> selecting_mode (mode_select_stage (frame_fingers f) (cTime f) s) \<longrightarrow>
    (truthy (frame_fingers f ! 1) \<and> truthy (frame_fingers f ! 2) \<and> xp s = 0 \<and> yp s = 0 \<longrightarrow>
        xp (fst (frame_step d e f s)) = lm_x (lmList f ! 8) \<and>
        yp (fst (frame_step d e f s)) = lm_y (lmList f ! 8) \<and>
        img_canvas (fst (frame_step d e f s)) =
          img_canvas s @
          [\<lparr>pt1 = (lm_x (lmList f ! 8), lm_y (lmList f ! 8)),
            pt2 = (lm_x (lmList f ! 8), lm_y (lmList f ! 8)),
            stroke_color = draw_color s, thickness = brush_thickness s\<rparr>]) \<and>
     (truthy (frame_fingers f ! 1) \<and> truthy (frame_fingers f ! 2) \<and> \<not> (xp s = 0 \<and> yp s = 0) \<longrightarrow>
        xp (fst (frame_step d e f s)) = lm_x (lmList f ! 8) \<and>
        yp (fst (frame_step d e f s)) = lm_y (lmList f ! 8) \<and>
        img_canvas (fst (frame_step d e f s)) =
          img_canvas s @
          [\<lparr>pt1 = (xp s, yp s),
            pt2 = (lm_x (lmList f ! 8), lm_y (lmList f ! 8)),
            stroke_color = draw_color s, thickness = brush_thickness s\<rparr>]) \<and>
     (\<not> (truthy (frame_fingers f ! 1) \<and> truthy (frame_fingers f ! 2)) \<longrightarrow>
        xp (fst (frame_step d e f s)) = 0 \<and>
        yp (fst (frame_step d e f s)) = 0 \<and>
        img_canvas (fst (frame_step d e f s)) = img_canvas s)"
  proof
    assume a: "current_mode s = Painter \<and> length (lmList f) > 8 \<and>
      \<not> selecting_mode (mode_select_stage (frame_fingers f) (cTime f) s)"
    then have a1: "current_mode s = Painter" and a2: "length (lmList f) > 8"
      and a3: "\<not> selecting_mode (mode_select_stage (frame_fingers f) (cTime f) s)"
      by simp_all
    show "(truthy (frame_fingers f ! 1) \<and> truthy (frame_fingers f ! 2) \<and> xp s = 0 \<and> yp s = 0 \<longrightarrow>
        xp (fst (frame_step d e f s)) = lm_x (lmList f ! 8) \<and>
        yp (fst (frame_step d e f s)) = lm_y (lmList f ! 8) \<and>
        img_canvas (fst (frame_step d e f s)) =
          img_canvas s @
          [\<lparr>pt1 = (lm_x (lmList f ! 8), lm_y (lmList f ! 8)),
            pt2 = (lm_x (lmList f ! 8), lm_y (lmList f ! 8)),
            stroke_color = draw_color s, thickness = brush_thickness s\<rparr>]) \<and>
     (truthy (frame_fingers f ! 1) \<and> truthy (frame_fingers f ! 2) \<and> \<not> (xp s = 0 \<and> yp s = 0) \<longrightarrow>
        xp (fst (frame_step d e f s)) = lm_x (lmList f ! 8) \<and>
        yp (fst (frame_step d e f s)) = lm_y (lmList f ! 8) \<and>
        img_canvas (fst (frame_step d e f s)) =
          img_canvas s @
          [\<lparr>pt1 = (xp s, yp s),
            pt2 = (lm_x (lmList f ! 8), lm_y (lmList f ! 8)),
            stroke_color = draw_color s, thickness = brush_thickness s\<rparr>]) \<and>
     (\<not> (truthy (frame_fingers f ! 1) \<and> truthy (frame_fingers f ! 2)) \<longrightarrow>
        xp (fst (frame_step d e f s)) = 0 \<and>
        yp (fst (frame_step d e f s)) = 0 \<and>
        img_canvas (fst (frame_step d e f s)) = img_canvas s)"
      by (rule painter_frame_cases [OF a1 a2 a3])
  qed
qed

lemma painter_first_frame:
  "frame_step MainPy sample_env (frame_at (pose False True True False False (100, 100)) 1)
     painter_state = (painter_state1, [])"
  by (simp add: stage_defs sample_simps painter_state_def painter_state1_def)

theorem C6_painter_stroke_witness:
  "current_mode painter_state = Painter \<and>
   length (lmList (frame_at (pose False True True False False (100, 100)) 1)) > 8 \<and>
   xp painter_state = 0 \<and> yp painter_state = 0 \<and>
   fst (frame_step MainPy sample_env (frame_at (pose False True True False False (100, 100)) 1)
          painter_state) = painter_state1 \<and>
   xp painter_state1 = 100 \<and> yp painter_state1 = 100 \<and>
   current_mode painter_state1 = Painter \<and>
   img_canvas (fst (frame_step MainPy sample_env
       (frame_at (pose False True True False False (110, 105)) 2) painter_state1)) =
     [\<lparr>pt1 = (100, 100), pt2 = (100, 100), stroke_color = (0, 0, 255), thickness = 10\<rparr>,
      \<lparr>pt1 = (100, 100), pt2 = (110, 105), stroke_color = (0, 0, 255), thickness = 10\<rparr>] \<and>
   xp (fst (frame_step MainPy sample_env
       (frame_at (pose False True True False False (110, 105)) 2) painter_state1)) = 110 \<and>
   yp (fst (frame_step MainPy sample_env
       (frame_at (pose False True True False False (110, 105)) 2) painter_state1)) = 105 \<and>
   xp (fst (frame_step MainPy sample_env
       (frame_at (pose False True False False False (300, 300)) 3) painter_state1)) = 0 \<and>
   yp (fst (frame_step MainPy sample_env
       (frame_at (pose False True False False False (300, 300)) 3) painter_state1)) = 0 \<and>
   length (lmList (frame_at (take 8 (pose False True True False False (110, 105))) 4)) \<le> 8 \<and>
   xp (fst (frame_step MainPy sample_env
       (frame_at (take 8 (pose False True True False False (110, 105))) 4) painter_state1)) = 100 \<and>
   yp (fst (frame_step MainPy sample_env
       (frame_at (take 8 (pose False True True False False (110, 105))) 4) painter_state1)) = 100 \<and>
   xp (fst (frame_step GuiPy sample_env (frame_at [] 5) painter_state1)) = 100 \<and>
   yp (fst (frame_step GuiPy sample_env (frame_at [] 5) painter_state1)) = 100"
proof -
  let ?f1 = "frame_at (pose False True True False False (100, 100)) 1"
  let ?f2 = "frame_at (pose False True True False False (110, 105)) 2"
  let ?f3 = "frame_at (pose False True False False False (300, 300)) 3"
  have m0: "current_mode painter_state = Painter"
    and pen0: "xp painter_state = 0" "yp painter_state = 0"
    by (simp_all add: painter_state_def init_state_def)
  have m1: "current_mode painter_state1 = Painter"
    and pen1: "xp painter_state1 = 100" "yp painter_state1 = 100"
    and cv1: "img_canvas painter_state1 =
        [\<lparr>pt1 = (100, 100), pt2 = (100, 100), stroke_color = (0, 0, 255), thickness = 10\<rparr>]"
    and tool1: "draw_color painter_state1 = (0, 0, 255)" "brush_thickness painter_state1 = 10"
    by (simp_all add: painter_state1_def painter_state_def init_state_def)
  have len: "length (lmList ?f1) > 8" "length (lmList ?f2) > 8" "length (lmList ?f3) > 8"
    by (simp_all add: sample_simps)
  have ns0: "\<not> selecting_mode (mode_select_stage (frame_fingers ?f1) (cTime ?f1) painter_state)"
    by (simp add: sample_simps mode_select_stage_def painter_state_def)
  have ns1: "\<not> selecting_mode (mode_select_stage (frame_fingers ?f2) (cTime ?f2) painter_state1)"
    "\<not> selecting_mode (mode_select_stage (frame_fingers ?f3) (cTime ?f3) painter_state1)"
    by (simp_all add: sample_simps mode_select_stage_def painter_state1_def painter_state_def)
  have draw: "truthy (frame_fingers ?f2 ! 1) \<and> truthy (frame_fingers ?f2 ! 2)"
    and nodraw: "\<not> (truthy (frame_fingers ?f3 ! 1) \<and> truthy (frame_fingers ?f3 ! 2))"
    by (simp_all add: sample_simps truthy_def)
  from C6_painter_stroke [of painter_state1 ?f2 MainPy sample_env] m1 len(2) ns1(1) draw pen1
  have second:
    "img_canvas (fst (frame_step MainPy sample_env ?f2 painter_state1)) =
       [\<lparr>pt1 = (100, 100), pt2 = (100, 100), stroke_color = (0, 0, 255), thickness = 10\<rparr>,
        \<lparr>pt1 = (100, 100), pt2 = (110, 105), stroke_color = (0, 0, 255), thickness = 10\<rparr>]"
    "xp (fst (frame_step MainPy sample_env ?f2 painter_state1)) = 110"
    "yp (fst (frame_step MainPy sample_env ?f2 painter_state1)) = 105"
    by (simp_all add: sample_simps cv1 tool1)
  from C6_painter_stroke [of painter_state1 ?f3 MainPy sample_env] m1 len(3) ns1(2) nodraw
  have third:
    "xp (fst (frame_step MainPy sample_env ?f3 painter_state1)) = 0"
    "yp (fst (frame_step MainPy sample_env ?f3 painter_state1)) = 0"
    by simp_all
  have first: "fst (frame_step MainPy sample_env ?f1 painter_state) = painter_state1"
    by (simp add: painter_first_frame)
  let ?f4 = "frame_at (take 8 (pose False True True False False (110, 105))) 4"
  have few: "length (lmList ?f4) \<le> 8" "length (lmList (frame_at [] 5)) \<le> 8"
    by (simp_all add: frame_at_simps)
  from C6_painter_stroke [of painter_state1 ?f4 MainPy sample_env] few(1) pen1
  have fourth:
    "xp (fst (frame_step MainPy sample_env ?f4 painter_state1)) = 100"
    "yp (fst (frame_step MainPy sample_env ?f4 painter_state1)) = 100"
    by simp_all
  from C6_painter_stroke [of painter_state1 "frame_at [] 5" GuiPy sample_env] few(2) pen1
  have fifth:
    "xp (fst (frame_step GuiPy sample_env (frame_at [] 5) painter_state1)) = 100"
    "yp (fst (frame_step GuiPy sample_env (frame_at [] 5) painter_state1)) = 100"
    by simp_all
  from m0 len(1) pen0 first pen1 m1 second third few(1) fourth fifth show ?thesis
    by (intro conjI)
qed

text \<open>
  C6 as stated fails twice. The first drawing frame after a lift does draw: the
  canvas, empty before, holds the zero-length segment at (100, 100) afterwards. And a
  Painter-mode frame without a hand, on which no drawing gesture is held, leaves the pen
  at (100, 100) instead of lifting it.
\<close>

theorem C6_first_frame_draws_counterexample:
  "xp painter_state = 0 \<and> yp painter_state = 0 \<and> img_canvas painter_state = [] \<and>
   img_canvas (fst (frame_step MainPy sample_env
       (frame_at (pose False True True False False (100, 100)) 1) painter_state)) =
     [\<lparr>pt1 = (100, 100), pt2 = (100, 100), stroke_color = (0, 0, 255), thickness = 10\<rparr>] \<and>
   current_mode painter_state1 = Painter \<and>
   xp (fst (frame_step MainPy sample_env (frame_at [] 2) painter_state1)) = 100 \<and>
   yp (fst (frame_step MainPy sample_env (frame_at [] 2) painter_state1)) = 100"
  by (simp add: painter_first_frame frame_step_no_hand frame_at_simps)
     (simp add: painter_state_def painter_state1_def init_state_def)

text \<open>
  Since a frame without a hand keeps the pen where it was, a stroke taken up again after
  the hand was lost is joined to the old one across the gap.
\<close>

lemma stroke_joined_across_lost_hand:
  "img_canvas (fst (frame_step MainPy sample_env
       (frame_at (pose False True True False False (500, 400)) 3)
       (fst (frame_step MainPy sample_env (frame_at [] 2) painter_state1)))) =
     [\<lparr>pt1 = (100, 100), pt2 = (100, 100), stroke_color = (0, 0, 255), thickness = 10\<rparr>,
      \<lparr>pt1 = (100, 100), pt2 = (500, 400), stroke_color = (0, 0, 255), thickness = 10\<rparr>]"
  by (simp add: frame_step_no_hand frame_at_simps)
     (simp add: stage_defs sample_simps painter_state1_def painter_state_def)

section \<open>Mode selection: hovering the icons\<close>

lemma enumerate_icons:
  "enumerate 0 (mode_icon_positions d) =
     [(0, mode_icon_positions d ! 0), (1, mode_icon_positions d ! 1),
      (2, mode_icon_positions d ! 2), (3, mode_icon_positions d ! 3)]"
  by (cases d) simp_all

lemma icons_disjoint:
  assumes "i < 4" "j < 4" "i \<noteq> j" "in_icon d (mode_icon_positions d ! i) p"
  shows "\<not> in_icon d (mode_icon_positions d ! j) p"
proof -
  from assms(1) have i: "i = 0 \<or> i = 1 \<or> i = 2 \<or> i = 3" by arith
  from assms(2) have j: "j = 0 \<or> j = 1 \<or> j = 2 \<or> j = 3" by arith
  show ?thesis
  proof (cases d)
    case MainPy
    with i j assms(3,4) show ?thesis by (auto simp: in_icon_def)
  next
    case GuiPy
    with i j assms(3,4) show ?thesis by (auto simp: in_icon_def)
  qed
qed

lemma check_hover_inside:
  assumes "i < 4" and "in_icon d (mode_icon_positions d ! i) p"
  shows "check_hover d p t s =
     (if hovered_icon s = int i then
        (if t - hover_start s > HOVER_HOLD then
           (case d of
              MainPy \<Rightarrow> s\<lparr>current_mode := mode_names ! i, selecting_mode := False\<rparr>
            | GuiPy \<Rightarrow> s\<lparr>current_mode := mode_names ! i, selecting_mode := False,
                          hovered_icon := -1\<rparr>)
         else s)
      else s\<lparr>hovered_icon := int i, hover_start := t\<rparr>)"
proof -
  from assms(1) have i: "i = 0 \<or> i = 1 \<or> i = 2 \<or> i = 3" by arith
  have others: "\<And>j. j < 4 \<Longrightarrow> j \<noteq> i \<Longrightarrow> \<not> in_icon d (mode_icon_positions d ! j) p"
    using icons_disjoint [OF assms(1) _ _ assms(2)] by blast
  have o0: "i \<noteq> 0 \<Longrightarrow> \<not> in_icon d (mode_icon_positions d ! 0) p"
   and o1: "i \<noteq> 1 \<Longrightarrow> \<not> in_icon d (mode_icon_positions d ! 1) p"
   and o2: "i \<noteq> 2 \<Longrightarrow> \<not> in_icon d (mode_icon_positions d ! 2) p"
    using others [of 0] others [of 1] others [of 2] by simp_all
  from i show ?thesis
  proof (elim disjE)
    assume "i = 0"
    with assms(2) show ?thesis
      by (cases d) (simp_all add: check_hover_def enumerate_icons mode_names_def)
  next
    assume "i = 1"
    with assms(2) o0 show ?thesis
      by (cases d) (simp_all add: check_hover_def enumerate_icons mode_names_def)
  next
    assume "i = 2"
    with assms(2) o0 o1 show ?thesis
      by (cases d) (simp_all add: check_hover_def enumerate_icons mode_names_def)
  next
    assume "i = 3"
    with assms(2) o0 o1 o2 show ?thesis
      by (cases d) (simp_all add: check_hover_def enumerate_icons mode_names_def)
  qed
qed

lemma check_hover_outside:
  assumes "\<forall>i < 4. \<not> in_icon d (mode_icon_positions d ! i) p"
  shows "check_hover d p t s = s\<lparr>hovered_icon := -1\<rparr>"
proof -
  from assms have "\<not> in_icon d (mode_icon_positions d ! 0) p"
    "\<not> in_icon d (mode_icon_positions d ! 1) p"
    "\<not> in_icon d (mode_icon_positions d ! 2) p"
    "\<not> in_icon d (mode_icon_positions d ! 3) p"
    by simp_all
  then show ?thesis by (simp add: check_hover_def enumerate_icons)
qed

text \<open>
  In a frame with mode selection active at the dispatch and more than 8 landmarks, the new
  state is what \<^verbatim>\<open>check_hover\<close> makes of the index fingertip.
\<close>

lemma gestures_selecting:
  assumes "selecting_mode (mode_select_stage fs (cTime f) s)" and "length (lmList f) > 8"
  shows "fst (gestures d e f fs s) =
           check_hover d (lm_x (lmList f ! 8), lm_y (lmList f ! 8)) (hTime f)
             (mode_select_stage fs (cTime f) (fst (screenshot_stage fs (cTime f) s)))"
  using assms by (simp add: gestures_def Let_def split_beta selecting_after_screenshot)

text \<open>
  What \<^verbatim>\<open>check_hover\<close> does in each case. With the fingertip inside the region of icon i:
  when i is the tracked icon and the dwell exceeds HOVER_HOLD, the mode becomes the mode of
  icon i and mode selection ends, and the GUI driver sets the tracked icon to none; when i
  is the tracked icon and the dwell does not exceed HOVER_HOLD, nothing changes; when
  another icon (or none) is tracked, the tracked icon becomes i and the hover timer
  restarts at the current time. With the fingertip outside all four regions, the tracked
  icon becomes none and nothing else changes.
\<close>

lemma check_hover_cases:
  "(i < 4 \<and> in_icon d (mode_icon_positions d ! i) p \<longrightarrow>
      (hovered_icon s = int i \<and> t - hover_start s > HOVER_HOLD \<longrightarrow>
         current_mode (check_hover d p t s) = mode_names ! i \<and>
         \<not> selecting_mode (check_hover d p t s) \<and>
         hover_start (check_hover d p t s) = hover_start s \<and>
         (d = GuiPy \<longrightarrow> hovered_icon (check_hover d p t s) = -1)) \<and>
      (hovered_icon s = int i \<and> t - hover_start s \<le> HOVER_HOLD \<longrightarrow> check_hover d p t s = s) \<and>
      (hovered_icon s \<noteq> int i \<longrightarrow>
         check_hover d p t s = s\<lparr>hovered_icon := int i, hover_start := t\<rparr>)) \<and>
   ((\<forall>i < 4. \<not> in_icon d (mode_icon_positions d ! i) p) \<longrightarrow>
      check_hover d p t s = s\<lparr>hovered_icon := -1\<rparr>)"
proof (intro conjI impI)
  assume "\<forall>i < 4. \<not> in_icon d (mode_icon_positions d ! i) p"
  then show "check_hover d p t s = s\<lparr>hovered_icon := -1\<rparr>" by (rule check_hover_outside)
next
  assume a: "i < 4 \<and> in_icon d (mode_icon_positions d ! i) p"
  then have ch: "check_hover d p t s =
     (if hovered_icon s = int i then
        (if t - hover_start s > HOVER_HOLD then
           (case d of
              MainPy \<Rightarrow> s\<lparr>current_mode := mode_names ! i, selecting_mode := False\<rparr>
            | GuiPy \<Rightarrow> s\<lparr>current_mode := mode_names ! i, selecting_mode := False,
                          hovered_icon := -1\<rparr>)
         else s)
      else s\<lparr>hovered_icon := int i, hover_start := t\<rparr>)"
    using check_hover_inside by blast
  {
    assume b: "hovered_icon s = int i \<and> t - hover_start s > HOVER_HOLD"
    from b ch show "current_mode (check_hover d p t s) = mode_names ! i"
      by (cases d) simp_all
    from b ch show "\<not> selecting_mode (check_hover d p t s)"
      by (cases d) simp_all
    from b ch show "hover_start (check_hover d p t s) = hover_start s"
      by (cases d) simp_all
    assume "d = GuiPy"
    with b ch show "hovered_icon (check_hover d p t s) = -1" by simp
  }
  {
    assume "hovered_icon s = int i \<and> t - hover_start s \<le> HOVER_HOLD"
    then show "check_hover d p t s = s" by (simp add: ch)
  }
  {
    assume "hovered_icon s \<noteq> int i"
    then show "check_hover d p t s = s\<lparr>hovered_icon := int i, hover_start := t\<rparr>"
      by (simp add: ch)
  }
qed

lemma rs5:
  "fst (frame_step MainPy sample_env (frame_at (pose True True True True True (200, 50)) 20)
         (init_state\<lparr>select_mode_start := 0, click_armed := True, selecting_mode := False,
                  hovered_icon := 1, hover_start := 4, current_mode := Volume\<rparr>))
   = init_state\<lparr>select_mode_start := 20, click_armed := True, selecting_mode := False,
                  hovered_icon := 1, hover_start := 4, current_mode := Volume\<rparr>"
  by (simp add: stage_defs sample_simps hover_defs sample_env_def)

lemma rs6:
  "fst (frame_step MainPy sample_env (frame_at (pose True True True True True (200, 50)) 23)
         (init_state\<lparr>select_mode_start := 20, click_armed := True, selecting_mode := False,
                  hovered_icon := 1, hover_start := 4, current_mode := Volume\<rparr>))
   = init_state\<lparr>select_mode_start := 20, click_armed := True, selecting_mode := False,
                  hovered_icon := 1, hover_start := 4, current_mode := Volume\<rparr>"
  by (simp add: stage_defs sample_simps hover_defs sample_env_def)

lemma gs1:
  "fst (frame_step GuiPy sample_env (frame_at (pose True True True True True (300, 300)) 1)
         init_state)
   = init_state\<lparr>select_mode_start := 1, click_armed := True\<rparr>"
  by (simp add: stage_defs sample_simps)

lemma gs2:
  "fst (frame_step GuiPy sample_env (frame_at (pose True True True True True (200, 50)) 4)
         (init_state\<lparr>select_mode_start := 1, click_armed := True\<rparr>))
   = init_state\<lparr>select_mode_start := 1, click_armed := True, selecting_mode := True,
                  hovered_icon := 1, hover_start := 4\<rparr>"
  by (simp add: stage_defs sample_simps hover_defs)

lemma gs3:
  "fst (frame_step GuiPy sample_env (frame_at (pose True True True True True (200, 50)) 6)
         (init_state\<lparr>select_mode_start := 1, click_armed := True, selecting_mode := True,
                  hovered_icon := 1, hover_start := 4\<rparr>))
   = init_state\<lparr>select_mode_start := 1, click_armed := True, selecting_mode := False,
                  hovered_icon := -1, hover_start := 4, current_mode := Volume\<rparr>"
  by (simp add: stage_defs sample_simps hover_defs)

lemma gs4:
  "fst (frame_step GuiPy sample_env (frame_at (pose False True False False False (300, 300)) 7)
         (init_state\<lparr>select_mode_start := 1, click_armed := True, selecting_mode := False,
                  hovered_icon := -1, hover_start := 4, current_mode := Volume\<rparr>))
   = init_state\<lparr>select_mode_start := 0, click_armed := True, selecting_mode := False,
                  hovered_icon := -1, hover_start := 4, current_mode := Volume\<rparr>"
  by (simp add: stage_defs sample_simps hover_defs sample_env_def)

lemma gs5:
  "fst (frame_step GuiPy sample_env (frame_at (pose True True True True True (200, 50)) 20)
         (init_state\<lparr>select_mode_start := 0, click_armed := True, selecting_mode := False,
                  hovered_icon := -1, hover_start := 4, current_mode := Volume\<rparr>))
   = init_state\<lparr>select_mode_start := 20, click_armed := True, selecting_mode := False,
                  hovered_icon := -1, hover_start := 4, current_mode := Volume\<rparr>"
  by (simp add: stage_defs sample_simps hover_defs sample_env_def)

lemma gs6:
  "fst (frame_step GuiPy sample_env (frame_at (pose True True True True True (200, 50)) 23)
         (init_state\<lparr>select_mode_start := 20, click_armed := True, selecting_mode := False,
                  hovered_icon := -1, hover_start := 4, current_mode := Volume\<rparr>))
   = init_state\<lparr>select_mode_start := 20, click_armed := True, selecting_mode := True,
                  hovered_icon := 1, hover_start := 23, current_mode := Volume\<rparr>"
  by (simp add: stage_defs sample_simps hover_defs sample_env_def)

lemma take_reselect:
  "take 3 reselect_trace =
     [frame_at (pose True True True True True (300, 300)) 1,
      frame_at (pose True True True True True (200, 50)) 4,
      frame_at (pose True True True True True (200, 50)) 6]"
  "take 5 reselect_trace =
     [frame_at (pose True True True True True (300, 300)) 1,
      frame_at (pose True True True True True (200, 50)) 4,
      frame_at (pose True True True True True (200, 50)) 6,
      frame_at (pose False True False False False (300, 300)) 7,
      frame_at (pose True True True True True (200, 50)) 20]"
  by (simp_all add: reselect_trace_def)

lemma reselect_main:
  "fst (run MainPy sample_env (take 3 reselect_trace) init_state)
   = init_state\<lparr>select_mode_start := 1, click_armed := True, selecting_mode := False,
                  hovered_icon := 1, hover_start := 4, current_mode := Volume\<rparr>"
  "fst (run MainPy sample_env (take 5 reselect_trace) init_state)
   = init_state\<lparr>select_mode_start := 20, click_armed := True, selecting_mode := False,
                  hovered_icon := 1, hover_start := 4, current_mode := Volume\<rparr>"
  "fst (run MainPy sample_env reselect_trace init_state)
   = init_state\<lparr>select_mode_start := 20, click_armed := True, selecting_mode := False,
                  hovered_icon := 1, hover_start := 4, current_mode := Volume\<rparr>"
  unfolding take_reselect
  by (simp_all only: reselect_trace_def fst_run_Cons fst_run_Nil sw1 sw2 sw3 sw4 rs5 rs6)

lemma reselect_gui:
  "fst (run GuiPy sample_env (take 3 reselect_trace) init_state)
   = init_state\<lparr>select_mode_start := 1, click_armed := True, selecting_mode := False,
                  hovered_icon := -1, hover_start := 4, current_mode := Volume\<rparr>"
  "fst (run GuiPy sample_env (take 5 reselect_trace) init_state)
   = init_state\<lparr>select_mode_start := 20, click_armed := True, selecting_mode := False,
                  hovered_icon := -1, hover_start := 4, current_mode := Volume\<rparr>"
  "fst (run GuiPy sample_env reselect_trace init_state)
   = init_state\<lparr>select_mode_start := 20, click_armed := True, selecting_mode := True,
                  hovered_icon := 1, hover_start := 23, current_mode := Volume\<rparr>"
  unfolding take_reselect
  by (simp_all only: reselect_trace_def fst_run_Cons fst_run_Nil gs1 gs2 gs3 gs4 gs5 gs6)

text \<open>
  C5. On a commit the hover tracking is to be reset. The GUI driver does it: after the
  commit of icon 1 at time 6 it tracks no icon, and when mode selection is entered again
  at time 23 with the fingertip over the same icon it starts a new dwell there. The script
  driver does not: after the same commit it still tracks icon 1 with the start time 4, so
  the frame at time 23 that enters mode selection finds the tracked icon under the
  fingertip with a dwell long over, commits and leaves mode selection on that same frame.
\<close>

theorem C5_script_keeps_tracked_icon:
  "current_mode (fst (run MainPy sample_env (take 3 reselect_trace) init_state)) = Volume \<and>
   selecting_mode (fst (run MainPy sample_env (take 3 reselect_trace) init_state)) = False \<and>
   hovered_icon (fst (run MainPy sample_env (take 3 reselect_trace) init_state)) = 1 \<and>
   selecting_mode (fst (run MainPy sample_env (take 5 reselect_trace) init_state)) = False \<and>
   selecting_mode (fst (run MainPy sample_env reselect_trace init_state)) = False \<and>
   current_mode (fst (run GuiPy sample_env (take 3 reselect_trace) init_state)) = Volume \<and>
   selecting_mode (fst (run GuiPy sample_env (take 3 reselect_trace) init_state)) = False \<and>
   hovered_icon (fst (run GuiPy sample_env (take 3 reselect_trace) init_state)) = -1 \<and>
   selecting_mode (fst (run GuiPy sample_env (take 5 reselect_trace) init_state)) = False \<and>
   selecting_mode (fst (run GuiPy sample_env reselect_trace init_state)) = True \<and>
   hovered_icon (fst (run GuiPy sample_env reselect_trace init_state)) = 1 \<and>
   hover_start (fst (run GuiPy sample_env reselect_trace init_state)) = 23"
  by (simp add: reselect_main reselect_gui)

section \<open>The screenshot hold\<close>

lemma mode_select_stage_shot:
  "screenshot_start (mode_select_stage fs t s) = screenshot_start s"
  by (simp add: mode_select_stage_def)

lemma check_hover_loop_shot:
  "screenshot_start (check_hover_loop d xs p t s) = screenshot_start s"
proof (induction xs)
  case Nil
  show ?case by simp
next
  case (Cons x xs)
  obtain i pos where x: "x = (i, pos)" by (cases x)
  show ?case using Cons.IH by (cases d) (simp_all add: x)
qed

lemma check_hover_shot: "screenshot_start (check_hover d p t s) = screenshot_start s"
  by (simp add: check_hover_def check_hover_loop_shot)

lemma mouse_dispatch_shot:
  "screenshot_start (fst (mouse_dispatch e lms fs s)) = screenshot_start s"
  "filter is_screenshot (snd (mouse_dispatch e lms fs s)) = []"
  by (simp_all add: mouse_dispatch_def Let_def)

lemma select_tool_shot: "screenshot_start (select_tool n s) = screenshot_start s"
  by (simp add: select_tool_def Let_def)

lemma select_tools_fold_shot:
  "screenshot_start
     (foldl (\<lambda>st (name, pos). if in_icon d pos p then select_tool name st else st) s xs)
   = screenshot_start s"
proof (induction xs arbitrary: s)
  case Nil
  show ?case by simp
next
  case (Cons x xs)
  obtain name pos where x: "x = (name, pos)" by (cases x)
  show ?case by (simp add: x Cons.IH select_tool_shot)
qed

lemma painter_dispatch_shot:
  "screenshot_start (painter_dispatch d lms fs s) = screenshot_start s"
  by (simp add: painter_dispatch_def Let_def select_tools_def select_tools_fold_shot)

lemma volume_dispatch_shot: "filter is_screenshot (volume_dispatch e lms) = []"
  by (simp add: volume_dispatch_def split: sum.splits)

lemma scroll_dispatch_shot: "filter is_screenshot (scroll_dispatch fs) = []"
  by (simp add: scroll_dispatch_def)

lemma gestures_shot:
  "screenshot_start (fst (gestures d e f fs s)) =
     screenshot_start (fst (screenshot_stage fs (cTime f) s))"
  "filter is_screenshot (snd (gestures d e f fs s)) =
     filter is_screenshot (snd (screenshot_stage fs (cTime f) s))"
  by (simp_all add: gestures_def Let_def split_beta mode_select_stage_shot check_hover_shot
        mouse_dispatch_shot painter_dispatch_shot volume_dispatch_shot scroll_dispatch_shot)

lemma frame_step_shot:
  assumes "lmList f \<noteq> []"
  shows "screenshot_start (fst (frame_step d e f s)) =
           screenshot_start (fst (screenshot_stage (frame_fingers f) (cTime f) s))"
    and "filter is_screenshot (snd (frame_step d e f s)) =
           filter is_screenshot (snd (screenshot_stage (frame_fingers f) (cTime f) s))"
  using assms by (cases d; simp add: frame_step_def Let_def split_beta gestures_shot)+

lemma fist_step:
  assumes "fist_frame f"
  shows "screenshot_start (fst (frame_step d e f s)) =
           (if screenshot_start s = 0 then cTime f
            else if cTime f - screenshot_start s \<ge> SCREENSHOT_HOLD then 0
            else screenshot_start s)"
    and "length (filter is_screenshot (snd (frame_step d e f s))) =
           (if screenshot_start s \<noteq> 0 \<and> cTime f - screenshot_start s \<ge> SCREENSHOT_HOLD
            then 1 else 0)"
proof -
  from assms have ne: "lmList f \<noteq> []" and fs: "frame_fingers f = [0, 0, 0, 0, 0]"
    by (simp_all add: fist_frame_def)
  show "screenshot_start (fst (frame_step d e f s)) =
           (if screenshot_start s = 0 then cTime f
            else if cTime f - screenshot_start s \<ge> SCREENSHOT_HOLD then 0
            else screenshot_start s)"
    by (simp add: frame_step_shot [OF ne] fs screenshot_stage_def)
  show "length (filter is_screenshot (snd (frame_step d e f s))) =
           (if screenshot_start s \<noteq> 0 \<and> cTime f - screenshot_start s \<ge> SCREENSHOT_HOLD
            then 1 else 0)"
    by (simp add: frame_step_shot [OF ne] fs screenshot_stage_def)
qed

lemma open_step:
  assumes "lmList f \<noteq> []" and "frame_fingers f \<noteq> [0, 0, 0, 0, 0]"
  shows "screenshot_start (fst (frame_step d e f s)) = 0"
    and "length (filter is_screenshot (snd (frame_step d e f s))) = 0"
  using assms by (simp_all add: frame_step_shot screenshot_stage_def)

lemma run_append:
  "run d e (xs @ ys) s =
     (fst (run d e ys (fst (run d e xs s))), snd (run d e xs s) @ snd (run d e ys (fst (run d e xs s))))"
  by (induction xs arbitrary: s) (simp_all add: split_beta)

lemma run_Cons:
  "run d e (f # fs) s =
     (fst (run d e fs (fst (frame_step d e f s))),
      snd (frame_step d e f s) # snd (run d e fs (fst (frame_step d e f s))))"
  by (simp add: split_beta)

lemma hold_quiet:
  assumes "screenshot_start s = t0" and "t0 \<noteq> 0"
    and "\<forall>f \<in> set fs. fist_frame f \<and> cTime f - t0 < SCREENSHOT_HOLD"
  shows "screenshots (snd (run d e fs s)) = replicate (length fs) 0 \<and>
         screenshot_start (fst (run d e fs s)) = t0"
  using assms
proof (induction fs arbitrary: s)
  case Nil
  then show ?case by (simp add: screenshots_def)
next
  case (Cons f fs)
  from Cons.prems have ff: "fist_frame f" and lt: "cTime f - t0 < SCREENSHOT_HOLD" by simp_all
  have st: "screenshot_start (fst (frame_step d e f s)) = t0"
    using Cons.prems(1,2) lt by (simp add: fist_step(1) [OF ff])
  have no: "length (filter is_screenshot (snd (frame_step d e f s))) = 0"
    using Cons.prems(1,2) lt by (simp add: fist_step(2) [OF ff])
  from Cons.prems(3) have rest: "\<forall>f \<in> set fs. fist_frame f \<and> cTime f - t0 < SCREENSHOT_HOLD"
    by simp
  from Cons.IH [OF st Cons.prems(2) rest]
  have IH: "screenshots (snd (run d e fs (fst (frame_step d e f s)))) = replicate (length fs) 0"
    "screenshot_start (fst (run d e fs (fst (frame_step d e f s)))) = t0"
    by simp_all
  show ?case using IH no by (simp add: run_Cons screenshots_def del: run.simps(2))
qed

text \<open>
  C1, as amended. Take a run of frames on which a hand is observed and the signature is
  the closed fist throughout, starting with the screenshot timer unset, at clock values
  other than 0. No screenshot is taken while less than SCREENSHOT_HOLD has passed since
  the first frame; exactly one is taken on the first frame at which SCREENSHOT_HOLD or
  more has passed, and that frame unsets the timer. The next fist frame then starts the
  timer again at its own time and takes no screenshot: firing re-arms the timer while the
  fist remains held, so the hold fires again after another SCREENSHOT_HOLD. A frame with
  a hand whose signature is not the fist unsets the timer and takes no screenshot.
\<close>

theorem C1_screenshot_hold:
  assumes "screenshot_start s = 0"
    and "fist_frame f0" and "cTime f0 \<noteq> 0"
    and "\<forall>f \<in> set mid. fist_frame f \<and> cTime f - cTime f0 < SCREENSHOT_HOLD"
    and "fist_frame fk" and "cTime fk - cTime f0 \<ge> SCREENSHOT_HOLD"
    and "fist_frame g" and "cTime g \<noteq> 0"
  shows
   "screenshots (snd (run d e (f0 # mid @ [fk]) s)) = replicate (Suc (length mid)) 0 @ [1] \<and>
    screenshot_start (fst (run d e (f0 # mid @ [fk]) s)) = 0 \<and>
    screenshot_start (fst (frame_step d e g (fst (run d e (f0 # mid @ [fk]) s)))) = cTime g \<and>
    length (filter is_screenshot
      (snd (frame_step d e g (fst (run d e (f0 # mid @ [fk]) s))))) = 0 \<and>
    (\<forall>h s'. lmList h \<noteq> [] \<and> frame_fingers h \<noteq> [0, 0, 0, 0, 0] \<longrightarrow>
       screenshot_start (fst (frame_step d e h s')) = 0 \<and>
       length (filter is_screenshot (snd (frame_step d e h s'))) = 0)"
proof -
  define s0 where "s0 = fst (frame_step d e f0 s)"
  define s1 where "s1 = fst (run d e mid s0)"
  have st0: "screenshot_start s0 = cTime f0"
    using assms(1) by (simp add: s0_def fist_step(1) [OF assms(2)])
  have no0: "length (filter is_screenshot (snd (frame_step d e f0 s))) = 0"
    using assms(1) by (simp add: fist_step(2) [OF assms(2)])
  from hold_quiet [OF st0 assms(3) assms(4), of d e]
  have quiet: "screenshots (snd (run d e mid s0)) = replicate (length mid) 0"
    and st1: "screenshot_start s1 = cTime f0"
    by (simp_all add: s1_def)
  have fire: "length (filter is_screenshot (snd (frame_step d e fk s1))) = 1"
    using st1 assms(3) assms(6) by (simp add: fist_step(2) [OF assms(5)])
  have st2: "screenshot_start (fst (frame_step d e fk s1)) = 0"
    using st1 assms(3) assms(6) by (simp add: fist_step(1) [OF assms(5)])
  have final: "fst (run d e (f0 # mid @ [fk]) s) = fst (frame_step d e fk s1)"
    by (simp add: run_Cons run_append s0_def s1_def del: run.simps(2))
  have acts: "snd (run d e (f0 # mid @ [fk]) s) =
      snd (frame_step d e f0 s) # snd (run d e mid s0) @ [snd (frame_step d e fk s1)]"
    by (simp add: run_Cons run_append s0_def s1_def del: run.simps(2))
  have 1: "screenshots (snd (run d e (f0 # mid @ [fk]) s)) = replicate (Suc (length mid)) 0 @ [1]"
    using quiet no0 fire by (simp add: acts screenshots_def del: run.simps(2))
  have 2: "screenshot_start (fst (run d e (f0 # mid @ [fk]) s)) = 0"
    by (simp add: final st2 del: run.simps(2))
  have 3: "screenshot_start (fst (frame_step d e g (fst (run d e (f0 # mid @ [fk]) s)))) = cTime g"
    using 2 by (simp add: fist_step(1) [OF assms(7)] del: run.simps(2))
  have 4: "length (filter is_screenshot
      (snd (frame_step d e g (fst (run d e (f0 # mid @ [fk]) s))))) = 0"
    using 2 by (simp add: fist_step(2) [OF assms(7)] del: run.simps(2))
  have 5: "\<forall>h s'. lmList h \<noteq> [] \<and> frame_fingers h \<noteq> [0, 0, 0, 0, 0] \<longrightarrow>
       screenshot_start (fst (frame_step d e h s')) = 0 \<and>
       length (filter is_screenshot (snd (frame_step d e h s'))) = 0"
    using open_step by blast
  from 1 2 3 4 5 show ?thesis by (intro conjI)
qed

lemma fist_frame_sample: "fist_frame (frame_at fist_hand t)"
  by (simp add: fist_frame_def fist_hand_def sample_simps)

theorem C1_screenshot_hold_witness:
  "screenshot_start init_state = 0 \<and>
   fist_frame (frame_at fist_hand 1) \<and> fist_frame (frame_at fist_hand 2) \<and>
   fist_frame (frame_at fist_hand 3) \<and> fist_frame (frame_at fist_hand 4) \<and>
   cTime (frame_at fist_hand 3) - cTime (frame_at fist_hand 1) \<ge> SCREENSHOT_HOLD \<and>
   screenshots (snd (run MainPy sample_env
      [frame_at fist_hand 1, frame_at fist_hand 2, frame_at fist_hand 3] init_state)) = [0, 0, 1] \<and>
   screenshot_start (fst (run MainPy sample_env
      [frame_at fist_hand 1, frame_at fist_hand 2, frame_at fist_hand 3] init_state)) = 0 \<and>
   screenshot_start (fst (frame_step MainPy sample_env (frame_at fist_hand 4)
      (fst (run MainPy sample_env
         [frame_at fist_hand 1, frame_at fist_hand 2, frame_at fist_hand 3] init_state)))) = 4"
proof -
  have h1: "screenshot_start init_state = 0" by (simp add: init_state_def)
  have h3: "cTime (frame_at fist_hand 1) \<noteq> 0" by (simp add: frame_at_simps)
  have h4: "\<forall>f \<in> set [frame_at fist_hand 2].
      fist_frame f \<and> cTime f - cTime (frame_at fist_hand 1) < SCREENSHOT_HOLD"
    by (simp add: fist_frame_sample frame_at_simps SCREENSHOT_HOLD_def)
  have h6: "cTime (frame_at fist_hand 3) - cTime (frame_at fist_hand 1) \<ge> SCREENSHOT_HOLD"
    by (simp add: frame_at_simps SCREENSHOT_HOLD_def)
  have h8: "cTime (frame_at fist_hand 4) \<noteq> 0" by (simp add: frame_at_simps)
  have l: "frame_at fist_hand 1 # [frame_at fist_hand 2] @ [frame_at fist_hand 3] =
      [frame_at fist_hand 1, frame_at fist_hand 2, frame_at fist_hand 3]"
    by simp
  note W = C1_screenshot_hold [OF h1 fist_frame_sample h3 h4 fist_frame_sample h6 fist_frame_sample h8,
      of MainPy sample_env, unfolded l]
  from W have a: "screenshots (snd (run MainPy sample_env
      [frame_at fist_hand 1, frame_at fist_hand 2, frame_at fist_hand 3] init_state)) = [0, 0, 1]"
    by (simp del: run.simps(2))
  from W have b: "screenshot_start (fst (run MainPy sample_env
      [frame_at fist_hand 1, frame_at fist_hand 2, frame_at fist_hand 3] init_state)) = 0"
    by blast
  from W have c: "screenshot_start (fst (frame_step MainPy sample_env (frame_at fist_hand 4)
      (fst (run MainPy sample_env
         [frame_at fist_hand 1, frame_at fist_hand 2, frame_at fist_hand 3] init_state)))) = 4"
    by (simp add: frame_at_simps del: run.simps(2))
  from h1 h6 a b c fist_frame_sample show ?thesis by (intro conjI)
qed

lemma fist_sample_step:
  "frame_step MainPy sample_env (frame_at fist_hand t) (init_state\<lparr>screenshot_start := u\<rparr>) =
     (init_state\<lparr>screenshot_start := (if u = 0 then t else if 2 \<le> t - u then 0 else u)\<rparr>,
      if u \<noteq> 0 \<and> 2 \<le> t - u then [Screenshot] else [])"
  by (simp add: stage_defs sample_simps fist_hand_def)

text \<open>
  C1 as stated fails: with the fist held on six frames one second apart, a
  screenshot is taken on the third frame and, without any release, again on the sixth.
\<close>

theorem C1_fist_held_fires_again_counterexample:
  "fist_frame (frame_at fist_hand 1) \<and> fist_frame (frame_at fist_hand 2) \<and>
   fist_frame (frame_at fist_hand 3) \<and> fist_frame (frame_at fist_hand 4) \<and>
   fist_frame (frame_at fist_hand 5) \<and> fist_frame (frame_at fist_hand 6) \<and>
   snd (run MainPy sample_env
      [frame_at fist_hand 1, frame_at fist_hand 2, frame_at fist_hand 3,
       frame_at fist_hand 4, frame_at fist_hand 5, frame_at fist_hand 6] init_state) =
     [[], [], [Screenshot], [], [], [Screenshot]]"
proof -
  have i: "init_state = init_state\<lparr>screenshot_start := 0\<rparr>" by (simp add: init_state_def)
  have "snd (run MainPy sample_env
      [frame_at fist_hand 1, frame_at fist_hand 2, frame_at fist_hand 3,
       frame_at fist_hand 4, frame_at fist_hand 5, frame_at fist_hand 6]
      (init_state\<lparr>screenshot_start := 0\<rparr>)) =
     [[], [], [Screenshot], [], [], [Screenshot]]"
    by (simp add: fist_sample_step)
  with i fist_frame_sample show ?thesis by simp
qed

end
